theory Spec2Isabelle
  imports Main "HOL-Library.Word"
begin

section \<open>Values shared by all cache engines\<close>

text \<open>
  The cache engines of \<^verbatim>\<open>daemon/cache\<close> are modelled single-threaded: every public
  operation holds the engine's mutex for its whole body, so the lock itself is left out.
  Go's \<^verbatim>\<open>int64\<close> is a 64-bit word read in two's complement; an \<^verbatim>\<open>error\<close> is
  \<open>None\<close> for \<^verbatim>\<open>nil\<close> and otherwise the text of \<^verbatim>\<open>err.Error()\<close>.
\<close>

type_synonym int64 = "64 word"
type_synonym error = "string option"
type_synonym imageID = string
type_synonym diffID = string
type_synonym chainID = string

datatype level = Debug | Info | Warn | Error

datatype oserror = NotExist | OtherOSError string

text \<open>
  \<^verbatim>\<open>*image.Image\<close>: \<^verbatim>\<open>ID()\<close> and \<^verbatim>\<open>ImageID()\<close> are the same digest text,
  \<^verbatim>\<open>RootFS\<close> is a pointer and may be nil.
\<close>

record image =
  ID :: imageID
  RootFS :: "diffID list option"
  OperatingSystem :: string

text \<open>\<^verbatim>\<open>layer.Metadata\<close>, the fields the cache reads.\<close>

record metadata =
  ChainID :: chainID
  DiffID :: diffID
  DiffSize :: int64

text \<open>A result of a Go function that may panic (a nil dereference).\<close>

datatype 'a result = Ok 'a | Panic

text \<open>What one round of a \<^verbatim>\<open>for\<close> loop does next.\<close>

datatype 'a ctl = Continue 'a | Return 'a | Panicked

subsection \<open>\<^verbatim>\<open>strings.ToLower\<close> and \<^verbatim>\<open>strings.Contains\<close> on ASCII text\<close>

definition lower_char :: "char \<Rightarrow> char" where
  "lower_char c =
     (case map_of (zip ''ABCDEFGHIJKLMNOPQRSTUVWXYZ'' ''abcdefghijklmnopqrstuvwxyz'') c of
        Some d \<Rightarrow> d
      | None \<Rightarrow> c)"

definition ToLower :: "string \<Rightarrow> string" where
  "ToLower s = map lower_char s"

fun Contains :: "string \<Rightarrow> string \<Rightarrow> bool" where
  "Contains [] sub = (sub = [])"
| "Contains (c # s) sub = (take (length sub) (c # s) = sub \<or> Contains s sub)"

definition mentions :: "string \<Rightarrow> string \<Rightarrow> bool" where
  "mentions msg sub = Contains (ToLower msg) sub"

subsection \<open>The collaborators\<close>

text \<open>
  The image service, the layer handles it returns, the archive directory and the logger
  are outside the cache. They are a record of functions over an abstract world \<open>'w\<close>;
  a Go function returning \<^verbatim>\<open>(value, error)\<close> returns the pair. \<open>'h\<close> is a non-nil
  \<^verbatim>\<open>layer.Layer\<close> handle, \<open>None\<close> the nil interface.
\<close>

record ('h, 'w) collaborators =
  GetImage :: "string \<Rightarrow> 'w \<Rightarrow> (image option \<times> error) \<times> 'w"
  ImageDelete :: "string \<Rightarrow> bool \<Rightarrow> bool \<Rightarrow> 'w \<Rightarrow> error \<times> 'w"
  GetReadOnlyLayer :: "chainID \<Rightarrow> string \<Rightarrow> 'w \<Rightarrow> ('h option \<times> error) \<times> 'w"
  ReleaseReadOnlyLayer :: "'h option \<Rightarrow> string \<Rightarrow> 'w \<Rightarrow> (metadata list \<times> error) \<times> 'w"
  layerSize :: "'h \<Rightarrow> 'w \<Rightarrow> int64 \<times> error"
  layerDiffSize :: "'h \<Rightarrow> 'w \<Rightarrow> int64 \<times> error"
  layerChainID :: "'h \<Rightarrow> chainID"
  layerDiffID :: "'h \<Rightarrow> diffID"
  CreateChainID :: "diffID list \<Rightarrow> chainID"
  Stat :: "diffID \<Rightarrow> 'w \<Rightarrow> int64 option \<times> oserror option"
  RemoveAll :: "diffID \<Rightarrow> 'w \<Rightarrow> oserror option \<times> 'w"
  Log :: "level \<Rightarrow> string \<Rightarrow> 'w \<Rightarrow> 'w"

subsection \<open>\<^verbatim>\<open>container/list\<close>\<close>

text \<open>
  A list is the sequence of its elements front first (\<open>cells\<close>), the value each element
  holds (\<open>val\<close>) and the next unused element (\<open>fresh\<close>). An element that was removed
  keeps its value and is no longer among the cells, as \<^verbatim>\<open>e.list == nil\<close> says in Go.
\<close>

type_synonym elem = nat

record 'v golist =
  cells :: "elem list"
  val :: "elem \<Rightarrow> 'v"
  fresh :: elem

definition list_New :: "'v \<Rightarrow> 'v golist" where
  "list_New d = \<lparr>cells = [], val = (\<lambda>_. d), fresh = 0\<rparr>"

definition Len :: "'v golist \<Rightarrow> nat" where
  "Len l = length (cells l)"

definition Back :: "'v golist \<Rightarrow> elem option" where
  "Back l = (if cells l = [] then None else Some (last (cells l)))"

definition PushFront :: "'v \<Rightarrow> 'v golist \<Rightarrow> elem \<times> 'v golist" where
  "PushFront v l =
     (fresh l, l\<lparr>cells := fresh l # cells l, val := (val l)(fresh l := v), fresh := Suc (fresh l)\<rparr>)"

definition Remove :: "elem \<Rightarrow> 'v golist \<Rightarrow> 'v golist" where
  "Remove e l = l\<lparr>cells := removeAll e (cells l)\<rparr>"

definition MoveToFront :: "elem \<Rightarrow> 'v golist \<Rightarrow> 'v golist" where
  "MoveToFront e l =
     (if e \<in> set (cells l) then l\<lparr>cells := e # removeAll e (cells l)\<rparr> else l)"

subsection \<open>Go's \<^verbatim>\<open>for cond { body }\<close>\<close>

text \<open>
  A round of the body ends in \<open>Continue\<close> (the next round, also after Go's
  \<^verbatim>\<open>continue\<close>), in \<open>Return\<close> (the enclosing function returns) or in a panic; a body
  that never ends is \<open>None\<close>. The loop gives \<open>Continue\<close> when its condition fails and
  the code after it runs, \<open>None\<close> when it runs forever.
\<close>

partial_function (option) for_loop ::
  "('s \<Rightarrow> bool) \<Rightarrow> ('s \<Rightarrow> 's ctl option) \<Rightarrow> 's \<Rightarrow> 's ctl option" where
  "for_loop cond body s =
     (if cond s then
        (case body s of
           None \<Rightarrow> None
         | Some (Continue s') \<Rightarrow> for_loop cond body s'
         | Some (Return s') \<Rightarrow> Some (Return s')
         | Some Panicked \<Rightarrow> Some Panicked)
      else Some (Continue s))"

text \<open>How a function that ran a loop last returns: with the state, panicking, or never.\<close>

definition returned :: "'s ctl option \<Rightarrow> 's result option" where
  "returned r =
     (case r of
        None \<Rightarrow> None
      | Some (Continue s) \<Rightarrow> Some (Ok s)
      | Some (Return s) \<Rightarrow> Some (Ok s)
      | Some Panicked \<Rightarrow> Some Panic)"

section \<open>The cache base (\<^verbatim>\<open>driver.go\<close>)\<close>

record cacheBase =
  capacity :: int64
  level :: int64

definition getImageSize ::
  "('h, 'w) collaborators \<Rightarrow> image \<Rightarrow> 'w \<Rightarrow> ((int64 \<times> error) \<times> 'w) result" where
  "getImageSize svc img w =
     (case RootFS img of
        None \<Rightarrow> Panic
      | Some diffIDs \<Rightarrow>
          (case GetReadOnlyLayer svc (CreateChainID svc diffIDs) (OperatingSystem img) w of
             ((topLayer, err), w1) \<Rightarrow>
               if err \<noteq> None then
                 (let w2 = Log svc Error ''error getting the top layer of image: %v'' w1;
                      w3 = snd (ReleaseReadOnlyLayer svc topLayer (OperatingSystem img) w2)
                  in Ok ((0, err), w3))
               else
                 (case topLayer of
                    None \<Rightarrow> Panic
                  | Some h \<Rightarrow>
                      (case layerSize svc h w1 of
                         (sz, err) \<Rightarrow>
                           if err \<noteq> None then
                             (let w2 = Log svc Error ''error getting the layer size: %v'' w1;
                                  w3 = snd (ReleaseReadOnlyLayer svc topLayer (OperatingSystem img) w2)
                              in Ok ((0, err), w3))
                           else
                             (let w3 = snd (ReleaseReadOnlyLayer svc topLayer (OperatingSystem img) w1)
                              in Ok ((sz, None), w3))))))"

definition checkImageSize ::
  "('h, 'w) collaborators \<Rightarrow> int64 \<Rightarrow> image \<Rightarrow> 'w \<Rightarrow> (error \<times> 'w) result" where
  "checkImageSize svc cap img w =
     (case getImageSize svc img w of
        Panic \<Rightarrow> Panic
      | Ok ((sz, err), w1) \<Rightarrow>
          if err \<noteq> None then Ok (err, w1)
          else if cap <s sz then
            Ok (Some ''The size of image %s (%d) is larger than the cache capacity (%d)'', w1)
          else Ok (None, w1))"

section \<open>image-LRU\<close>

record imageLRUCache = cacheBase +
  images_i :: "imageID \<rightharpoonup> elem"
  evictList_i :: "image golist"

definition newImageLRUCache :: "int64 \<Rightarrow> imageLRUCache" where
  "newImageLRUCache cap =
     \<lparr>capacity = cap, level = 0, images_i = Map.empty,
      evictList_i = list_New \<lparr>ID = [], RootFS = None, OperatingSystem = []\<rparr>\<rparr>"

text \<open>One round of the loop of \<^verbatim>\<open>imageLRUCache.evict\<close>.\<close>

definition evict_i_body ::
  "('h, 'w) collaborators \<Rightarrow> imageLRUCache \<times> 'w \<Rightarrow> (imageLRUCache \<times> 'w) ctl" where
  "evict_i_body svc cw =
     (case cw of (c, w) \<Rightarrow>
        (case Back (evictList_i c) of
           None \<Rightarrow> Panicked
         | Some e \<Rightarrow>
             (let img = val (evictList_i c) e in
              case getImageSize svc img w of
                Panic \<Rightarrow> Panicked
              | Ok ((sz, err), w1) \<Rightarrow>
                  if err \<noteq> None then Continue (c, w1)
                  else
                    (let w2 = Log svc Info ''Evicting image %s ...'' w1 in
                     case ImageDelete svc (ID img) True False w2 of
                       (Some msg, w3) \<Rightarrow>
                         if mentions msg ''conflict'' then
                           Continue (c, Log svc Debug ''Image deletion conflict detected, skip'' w3)
                         else if mentions msg ''no such image'' then
                           Continue (c, Log svc Warn ''Image %s no longer exists'' w3)
                         else Return (c, Log svc Error ''error deleting image: %v'' w3)
                     | (None, w3) \<Rightarrow>
                         Continue
                           (c\<lparr>images_i := (images_i c)(ID img := None),
                              evictList_i := Remove e (evictList_i c),
                              level := level c - sz\<rparr>,
                            Log svc Info ''Evicted image %s, %d/%d (%.3f)'' w3)))))"

definition over_capacity_i :: "imageLRUCache \<times> 'w \<Rightarrow> bool" where
  "over_capacity_i cw = (capacity (fst cw) <s level (fst cw))"

definition evict_i ::
  "('h, 'w) collaborators \<Rightarrow> imageLRUCache \<times> 'w \<Rightarrow> (imageLRUCache \<times> 'w) result option" where
  "evict_i svc cw =
     (if Len (evictList_i (fst cw)) = 0 then
        Some (Ok (fst cw, Log svc Debug ''Empty cache, nothing to evict'' (snd cw)))
      else returned (for_loop over_capacity_i (\<lambda>x. Some (evict_i_body svc x)) cw))"

definition PutImage_i ::
  "('h, 'w) collaborators \<Rightarrow> image option \<Rightarrow> imageLRUCache \<times> 'w \<Rightarrow>
     (imageLRUCache \<times> 'w) result option" where
  "PutImage_i svc imgp cw =
     (case cw of (c, w) \<Rightarrow>
        (case imgp of
           None \<Rightarrow> Some (Ok (c, w))
         | Some img \<Rightarrow>
             (case checkImageSize svc (capacity c) img w of
                Panic \<Rightarrow> Some Panic
              | Ok (Some msg, w1) \<Rightarrow>
                  Some (Ok (c, Log svc Error ''error putting image in cache: %v'' w1))
              | Ok (None, w1) \<Rightarrow>
                  (case images_i c (ID img) of
                     Some e \<Rightarrow> Some (Ok (c\<lparr>evictList_i := MoveToFront e (evictList_i c)\<rparr>, w1))
                   | None \<Rightarrow>
                       (case getImageSize svc img w1 of
                          Panic \<Rightarrow> Some Panic
                        | Ok ((newSize, Some msg), w2) \<Rightarrow> Some (Ok (c, w2))
                        | Ok ((newSize, None), w2) \<Rightarrow>
                            (case PushFront img (evictList_i c) of
                               (e, l) \<Rightarrow>
                                 evict_i svc
                                   (c\<lparr>images_i := (images_i c)(ID img \<mapsto> e),
                                      evictList_i := l,
                                      level := level c + newSize\<rparr>,
                                    Log svc Info ''Put image %s, %d/%d (%.3f)'' w2)))))))"

definition UpdateImage_i ::
  "('h, 'w) collaborators \<Rightarrow> string \<Rightarrow> imageLRUCache \<times> 'w \<Rightarrow> (imageLRUCache \<times> 'w) result" where
  "UpdateImage_i svc refOrID cw =
     (case cw of (c, w) \<Rightarrow>
        (case GetImage svc refOrID w of
           ((imgp, Some msg), w1) \<Rightarrow> Ok (c, Log svc Warn ''error getting image: %v'' w1)
         | ((None, None), w1) \<Rightarrow> Panic
         | ((Some img, None), w1) \<Rightarrow>
             (case images_i c (ID img) of
                Some e \<Rightarrow>
                  Ok (c\<lparr>evictList_i := MoveToFront e (evictList_i c)\<rparr>,
                      Log svc Info ''Updated image %s, %d/%d (%.3f)'' w1)
              | None \<Rightarrow> Ok (c, Log svc Info ''Image %s is not in cache'' w1))))"

definition RemoveImage_i ::
  "('h, 'w) collaborators \<Rightarrow> imageID \<Rightarrow> imageLRUCache \<times> 'w \<Rightarrow> (imageLRUCache \<times> 'w) result" where
  "RemoveImage_i svc imgID cw =
     (case cw of (c, w) \<Rightarrow>
        (case images_i c imgID of
           Some e \<Rightarrow>
             (case getImageSize svc (val (evictList_i c) e) w of
                Panic \<Rightarrow> Panic
              | Ok ((sz, Some msg), w1) \<Rightarrow> Ok (c, w1)
              | Ok ((sz, None), w1) \<Rightarrow>
                  Ok (c\<lparr>images_i := (images_i c)(imgID := None),
                        evictList_i := Remove e (evictList_i c),
                        level := level c - sz\<rparr>,
                      Log svc Info ''Removed image %s, %d/%d (%.3f)'' w1))
         | None \<Rightarrow> Ok (c, Log svc Warn ''Image %s is not in cache'' w)))"

section \<open>layer-LRU (\<^verbatim>\<open>layer_lru.go\<close>)\<close>

record 'h cacheLayer =
  layer_cl :: "'h option"
  size_cl :: int64
  images_cl :: "string list"
  os_cl :: string

text \<open>
  The engine's tables. \<open>'v\<close> is what the list's elements hold: a \<open>cacheLayer\<close> in
  layer-LRU, an \<open>archiveLayer\<close> (which extends it) in archive-LRU.
\<close>

record 'v layerLRUCache = cacheBase +
  images_l :: "imageID \<rightharpoonup> image"
  layers :: "chainID \<rightharpoonup> elem"
  evictList_l :: "'v golist"

definition newLayerLRUCache :: "int64 \<Rightarrow> 'h cacheLayer layerLRUCache" where
  "newLayerLRUCache cap =
     \<lparr>capacity = cap, level = 0, images_l = Map.empty, layers = Map.empty,
      evictList_l = list_New \<lparr>layer_cl = None, size_cl = 0, images_cl = [], os_cl = []\<rparr>\<rparr>"

text \<open>
  The chain IDs of an image, the top layer's first: the loop that appends each diff ID and
  prepends the chain ID of the diff IDs so far.
\<close>

fun chain_loop ::
  "('h, 'w) collaborators \<Rightarrow> diffID list \<Rightarrow> diffID list \<Rightarrow> chainID list \<Rightarrow> chainID list" where
  "chain_loop svc [] diffIDs chainIDs = chainIDs"
| "chain_loop svc (d # ds) diffIDs chainIDs =
     chain_loop svc ds (diffIDs @ [d]) (CreateChainID svc (diffIDs @ [d]) # chainIDs)"

definition chainIDsOf :: "('h, 'w) collaborators \<Rightarrow> diffID list \<Rightarrow> chainID list" where
  "chainIDsOf svc ds = chain_loop svc ds [] []"

text \<open>The loop over a candidate's images in \<^verbatim>\<open>layerLRUCache.evict\<close>.\<close>

datatype scan = Clear | Conflict | Failed

fun deleteImages_l ::
  "('h, 'w) collaborators \<Rightarrow> string \<Rightarrow> string list \<Rightarrow> 'w \<Rightarrow> scan \<times> 'w" where
  "deleteImages_l svc current [] w = (Clear, w)"
| "deleteImages_l svc current (imgID # rest) w =
     (if imgID = current then (Conflict, w)
      else
        (case ImageDelete svc imgID False False w of
           (Some msg, w1) \<Rightarrow>
             if mentions msg ''conflict'' then (Conflict, w1)
             else if \<not> mentions msg ''no such image'' then
               (Failed, Log svc Error ''error deleting image: %v'' w1)
             else deleteImages_l svc current rest w1
         | (None, w1) \<Rightarrow> deleteImages_l svc current rest w1))"

text \<open>The last loop of \<^verbatim>\<open>evict\<close>, over the layers the service released.\<close>

fun dropReleased ::
  "('h, 'w) collaborators \<Rightarrow> metadata list \<Rightarrow> 'v layerLRUCache \<times> 'w \<Rightarrow> 'v layerLRUCache \<times> 'w" where
  "dropReleased svc [] cw = cw"
| "dropReleased svc (l # rest) cw =
     (case cw of (c, w) \<Rightarrow>
        (case layers c (ChainID l) of
           None \<Rightarrow> dropReleased svc rest (c, Log svc Warn ''Layer %s is not in cache'' w)
         | Some e \<Rightarrow>
             dropReleased svc rest
               (c\<lparr>level := level c - DiffSize l,
                  layers := (layers c)(ChainID l := None),
                  evictList_l := Remove e (evictList_l c)\<rparr>,
                Log svc Info ''Evicted layer %s, %d/%d (%.3f)'' w)))"

text \<open>Counting a retry of a chain ID on the checkboard, and giving up past three.\<close>

definition bump ::
  "('h, 'w) collaborators \<Rightarrow> chainID \<Rightarrow> 'c \<times> (chainID \<Rightarrow> nat) \<times> 'w \<Rightarrow>
     ('c \<times> (chainID \<Rightarrow> nat) \<times> 'w) ctl" where
  "bump svc chainID x =
     (case x of (c, checkboard, w) \<Rightarrow>
        (let checkboard1 = checkboard(chainID := Suc (checkboard chainID)) in
         if 3 < checkboard1 chainID then
           Return (c, checkboard1, Log svc Warn ''Exceeding the max eviction retries, abort'' w)
         else Continue (c, checkboard1, w)))"

text \<open>
  The inner \<^verbatim>\<open>for released, err = Release(...); err != nil; { ... }\<close>: the release is
  the loop's init statement and runs once; a round either fetches a new handle into the
  record (which sets \<^verbatim>\<open>err\<close>) or logs and leaves \<^verbatim>\<open>err\<close> as it is.
\<close>

definition release_round ::
  "('h, 'w) collaborators \<Rightarrow> elem \<Rightarrow> chainID \<Rightarrow>
     error \<times> 'h cacheLayer layerLRUCache \<times> 'w \<Rightarrow>
     (error \<times> 'h cacheLayer layerLRUCache \<times> 'w) ctl" where
  "release_round svc e chainID x =
     (case x of (err, c, w) \<Rightarrow>
        (case err of
           None \<Rightarrow> Continue (err, c, w)
         | Some msg \<Rightarrow>
             if mentions msg ''layer not retained'' then
               (let cl = val (evictList_l c) e in
                case GetReadOnlyLayer svc chainID (os_cl cl) w of
                  ((lay, err1), w1) \<Rightarrow>
                    (let c1 = c\<lparr>evictList_l :=
                                 (evictList_l c)\<lparr>val := (val (evictList_l c))(e := cl\<lparr>layer_cl := lay\<rparr>)\<rparr>\<rparr>
                     in if err1 \<noteq> None then
                          Return (err1, c1, Log svc Error ''error getting layer: %v'' w1)
                        else Continue (err1, c1, w1)))
             else Continue (err, c, Log svc Error ''error releasing layer: %v'' w)))"

definition release_pending :: "error \<times> 'c \<times> 'w \<Rightarrow> bool" where
  "release_pending x = (fst x \<noteq> None)"

text \<open>One round of the loop of \<^verbatim>\<open>layerLRUCache.evict\<close>.\<close>

definition evict_l_body ::
  "('h, 'w) collaborators \<Rightarrow> string \<Rightarrow>
     'h cacheLayer layerLRUCache \<times> (chainID \<Rightarrow> nat) \<times> 'w \<Rightarrow>
     ('h cacheLayer layerLRUCache \<times> (chainID \<Rightarrow> nat) \<times> 'w) ctl option" where
  "evict_l_body svc current x =
     (case x of (c, checkboard, w) \<Rightarrow>
        (case Back (evictList_l c) of
           None \<Rightarrow> Some Panicked
         | Some e \<Rightarrow>
             (let cl = val (evictList_l c) e in
              case layer_cl cl of
                None \<Rightarrow> Some Panicked
              | Some h \<Rightarrow>
                  (let chainID = layerChainID svc h;
                       w1 = Log svc Info ''Eviciting %s, %d/%d (%.3f)'' w
                   in case deleteImages_l svc current (images_cl cl) w1 of
                        (Failed, w2) \<Rightarrow> Some (Return (c, checkboard, w2))
                      | (Conflict, w2) \<Rightarrow>
                          Some (bump svc chainID
                            (c, checkboard, Log svc Debug ''Image deletion conflict detected, skip'' w2))
                      | (Clear, w2) \<Rightarrow>
                          (case ReleaseReadOnlyLayer svc (layer_cl cl) (os_cl cl) w2 of
                             ((released, err), w3) \<Rightarrow>
                               (case for_loop release_pending
                                       (\<lambda>y. Some (release_round svc e chainID y)) (err, c, w3) of
                                  None \<Rightarrow> None
                                | Some Panicked \<Rightarrow> Some Panicked
                                | Some (Return (err1, c1, w4)) \<Rightarrow> Some (Return (c1, checkboard, w4))
                                | Some (Continue (err1, c1, w4)) \<Rightarrow>
                                    if length released = 0 then
                                      Some (bump svc chainID
                                        (c1\<lparr>evictList_l := MoveToFront e (evictList_l c1)\<rparr>,
                                         checkboard,
                                         Log svc Info ''Layer %s seems being used, skip'' w4))
                                    else
                                      (case dropReleased svc released (c1, w4) of
                                         (c2, w5) \<Rightarrow> Some (Continue (c2, checkboard, w5)))))))))"

definition over_capacity :: "'v layerLRUCache \<times> (chainID \<Rightarrow> nat) \<times> 'w \<Rightarrow> bool" where
  "over_capacity x = (capacity (fst x) <s level (fst x))"

text \<open>Leaving \<^verbatim>\<open>evict\<close>: the checkboard is local to the call.\<close>

definition leave_evict ::
  "('c \<times> (chainID \<Rightarrow> nat) \<times> 'w) ctl option \<Rightarrow> ('c \<times> 'w) result option" where
  "leave_evict r =
     (case r of
        None \<Rightarrow> None
      | Some Panicked \<Rightarrow> Some Panic
      | Some (Continue (c, checkboard, w)) \<Rightarrow> Some (Ok (c, w))
      | Some (Return (c, checkboard, w)) \<Rightarrow> Some (Ok (c, w)))"

definition evict_l ::
  "('h, 'w) collaborators \<Rightarrow> string \<Rightarrow> 'h cacheLayer layerLRUCache \<times> 'w \<Rightarrow>
     ('h cacheLayer layerLRUCache \<times> 'w) result option" where
  "evict_l svc current cw =
     (case cw of (c, w) \<Rightarrow>
        if Len (evictList_l c) = 0 then
          Some (Ok (c, Log svc Debug ''Empty cache, nothing to evict'' w))
        else leave_evict (for_loop over_capacity (evict_l_body svc current) (c, (\<lambda>_. 0), w)))"

text \<open>
  \<^verbatim>\<open>putLayer\<close> up to its return; \<^verbatim>\<open>defer c.evict(img.ID())\<close> runs after it. The flag
  says that the body ended in a panic (a nil layer with a nil error), in which case the
  deferred eviction still runs before the panic goes on.
\<close>

definition putLayer_l_body ::
  "('h, 'w) collaborators \<Rightarrow> chainID \<Rightarrow> image \<Rightarrow> 'h cacheLayer layerLRUCache \<times> 'w \<Rightarrow>
     ('h cacheLayer layerLRUCache \<times> 'w) \<times> bool" where
  "putLayer_l_body svc chainID img cw =
     (case cw of (c, w) \<Rightarrow>
        (let c1 = (case layers c chainID of
                     Some e \<Rightarrow>
                       c\<lparr>evictList_l := Remove e (evictList_l c),
                         level := level c - size_cl (val (evictList_l c) e)\<rparr>
                   | None \<Rightarrow> c)
         in case GetReadOnlyLayer svc chainID (OperatingSystem img) w of
              ((l, err), w1) \<Rightarrow>
                if err \<noteq> None then ((c1, Log svc Error ''error getting layer: %v'' w1), False)
                else
                  (case l of
                     None \<Rightarrow> ((c1, w1), True)
                   | Some h \<Rightarrow>
                       (case layerDiffSize svc h w1 of
                          (sz, err) \<Rightarrow>
                            if err \<noteq> None then
                              ((c1, Log svc Error ''error getting layer size: %v'' w1), False)
                            else
                              (case PushFront
                                      \<lparr>layer_cl = l, size_cl = sz, images_cl = [ID img],
                                       os_cl = OperatingSystem img\<rparr>
                                      (evictList_l c1) of
                                 (e, lst) \<Rightarrow>
                                   ((c1\<lparr>layers := (layers c1)(chainID \<mapsto> e),
                                        evictList_l := lst,
                                        level := level c1 + sz\<rparr>,
                                     Log svc Info ''Put layer %s, %d/%d (%.3f)'' w1), False))))))"

text \<open>Running a deferred eviction after a body.\<close>

definition deferred ::
  "('s \<Rightarrow> 's result option) \<Rightarrow> 's \<times> bool \<Rightarrow> 's result option" where
  "deferred ev r =
     (case r of (s, panicking) \<Rightarrow>
        (case ev s of
           None \<Rightarrow> None
         | Some Panic \<Rightarrow> Some Panic
         | Some (Ok s1) \<Rightarrow> if panicking then Some Panic else Some (Ok s1)))"

definition putLayer_l ::
  "('h, 'w) collaborators \<Rightarrow> chainID \<Rightarrow> image \<Rightarrow> 'h cacheLayer layerLRUCache \<times> 'w \<Rightarrow>
     ('h cacheLayer layerLRUCache \<times> 'w) result option" where
  "putLayer_l svc chainID img cw =
     deferred (evict_l svc (ID img)) (putLayer_l_body svc chainID img cw)"

text \<open>A \<^verbatim>\<open>for _, chainID := range chainIDs\<close> whose body may panic or never return.\<close>

fun each_chain ::
  "(chainID \<Rightarrow> 's \<Rightarrow> 's result option) \<Rightarrow> chainID list \<Rightarrow> 's \<Rightarrow> 's result option" where
  "each_chain f [] s = Some (Ok s)"
| "each_chain f (chainID # rest) s =
     (case f chainID s of
        None \<Rightarrow> None
      | Some Panic \<Rightarrow> Some Panic
      | Some (Ok s1) \<Rightarrow> each_chain f rest s1)"

definition PutImage_l ::
  "('h, 'w) collaborators \<Rightarrow> image option \<Rightarrow> 'h cacheLayer layerLRUCache \<times> 'w \<Rightarrow>
     ('h cacheLayer layerLRUCache \<times> 'w) result option" where
  "PutImage_l svc imgp cw =
     (case cw of (c, w) \<Rightarrow>
        (case imgp of
           None \<Rightarrow> Some (Ok (c, w))
         | Some img \<Rightarrow>
             (case checkImageSize svc (capacity c) img w of
                Panic \<Rightarrow> Some Panic
              | Ok (Some msg, w1) \<Rightarrow>
                  Some (Ok (c, Log svc Error ''error putting image in cache: %v'' w1))
              | Ok (None, w1) \<Rightarrow>
                  (case RootFS img of
                     None \<Rightarrow> Some Panic
                   | Some ds \<Rightarrow>
                       each_chain (\<lambda>chainID. putLayer_l svc chainID img) (chainIDsOf svc ds)
                         (c\<lparr>images_l := (images_l c)(ID img \<mapsto> img)\<rparr>, w1)))))"

text \<open>
  \<^verbatim>\<open>updateLayer\<close> up to its return. \<^verbatim>\<open>archiveLRUCache.updateLayer\<close> is the same text,
  on records that carry a compact size as well.
\<close>

definition updateLayer_body ::
  "('h, 'w) collaborators \<Rightarrow> chainID \<Rightarrow> image \<Rightarrow>
     ('h, 'z) cacheLayer_scheme layerLRUCache \<times> 'w \<Rightarrow>
     ('h, 'z) cacheLayer_scheme layerLRUCache \<times> 'w" where
  "updateLayer_body svc chainID img cw =
     (case cw of (c, w) \<Rightarrow>
        (case layers c chainID of
           None \<Rightarrow> (c, Log svc Debug ''Layer %s is not in cache'' w)
         | Some e \<Rightarrow>
             (let cl = val (evictList_l c) e;
                  lst = (evictList_l c)
                          \<lparr>val := (val (evictList_l c))(e := cl\<lparr>images_cl := images_cl cl @ [ID img]\<rparr>)\<rparr>
              in (c\<lparr>evictList_l := MoveToFront e lst\<rparr>,
                  Log svc Info ''Updated layer %s, %d/%d (%.3f)'' w))))"

definition updateLayer_l ::
  "('h, 'w) collaborators \<Rightarrow> chainID \<Rightarrow> image \<Rightarrow> 'h cacheLayer layerLRUCache \<times> 'w \<Rightarrow>
     ('h cacheLayer layerLRUCache \<times> 'w) result option" where
  "updateLayer_l svc chainID img cw =
     deferred (evict_l svc []) (updateLayer_body svc chainID img cw, False)"

definition UpdateImage_l ::
  "('h, 'w) collaborators \<Rightarrow> string \<Rightarrow> 'h cacheLayer layerLRUCache \<times> 'w \<Rightarrow>
     ('h cacheLayer layerLRUCache \<times> 'w) result option" where
  "UpdateImage_l svc refOrID cw =
     (case cw of (c, w) \<Rightarrow>
        (case GetImage svc refOrID w of
           ((imgp, Some msg), w1) \<Rightarrow> Some (Ok (c, Log svc Warn ''error getting image: %v'' w1))
         | ((None, None), w1) \<Rightarrow> Some Panic
         | ((Some img, None), w1) \<Rightarrow>
             (case RootFS img of
                None \<Rightarrow> Some Panic
              | Some ds \<Rightarrow>
                  each_chain (\<lambda>chainID. updateLayer_l svc chainID img) (chainIDsOf svc ds) (c, w1))))"

text \<open>\<^verbatim>\<open>deleteArchive\<close> of \<^verbatim>\<open>util.go\<close>.\<close>

definition deleteArchive ::
  "('h, 'w) collaborators \<Rightarrow> diffID \<Rightarrow> 'w \<Rightarrow> oserror option \<times> 'w" where
  "deleteArchive svc diffID w =
     (case RemoveAll svc diffID w of
        (Some NotExist, w1) \<Rightarrow> (None, w1)
      | (err, w1) \<Rightarrow> (err, w1))"

text \<open>
  \<^verbatim>\<open>removeLayer\<close> and \<^verbatim>\<open>RemoveImage\<close>, the same text in \<^verbatim>\<open>layerLRUCache\<close> and
  \<^verbatim>\<open>archiveLRUCache\<close>. First the loop over the layers the service released.
\<close>

fun removeReleased ::
  "('h, 'w) collaborators \<Rightarrow> metadata list \<Rightarrow> 'v layerLRUCache \<times> 'w \<Rightarrow> 'v layerLRUCache \<times> 'w" where
  "removeReleased svc [] cw = cw"
| "removeReleased svc (l # rest) cw =
     (case cw of (c, w) \<Rightarrow>
        (case layers c (ChainID l) of
           None \<Rightarrow> removeReleased svc rest (c, Log svc Warn ''Layer %s is not in cache'' w)
         | Some e \<Rightarrow>
             (let w2 = (case deleteArchive svc (DiffID l) w of
                          (Some err, w1) \<Rightarrow> Log svc Warn ''error deleting layer archive: %v'' w1
                        | (None, w1) \<Rightarrow> w1)
              in removeReleased svc rest
                   (c\<lparr>level := level c - DiffSize l,
                      layers := (layers c)(ChainID l := None),
                      evictList_l := Remove e (evictList_l c)\<rparr>,
                    Log svc Info ''Removed layer %s, %d/%d (%.3f)'' w2))))"

definition removeLayer ::
  "('h, 'w) collaborators \<Rightarrow> chainID \<Rightarrow>
     ('h, 'z) cacheLayer_scheme layerLRUCache \<times> 'w \<Rightarrow>
     ('h, 'z) cacheLayer_scheme layerLRUCache \<times> 'w" where
  "removeLayer svc chainID cw =
     (case cw of (c, w) \<Rightarrow>
        (case layers c chainID of
           None \<Rightarrow> (c, Log svc Debug ''Layer %s is not in cache'' w)
         | Some e \<Rightarrow>
             (let cl = val (evictList_l c) e in
              case ReleaseReadOnlyLayer svc (layer_cl cl) (os_cl cl) w of
                ((released, err), w1) \<Rightarrow>
                  if err \<noteq> None then (c, Log svc Error ''error releasing layer: %v'' w1)
                  else removeReleased svc released (c, w1))))"

fun removeLayers ::
  "('h, 'w) collaborators \<Rightarrow> diffID list \<Rightarrow> diffID list \<Rightarrow>
     ('h, 'z) cacheLayer_scheme layerLRUCache \<times> 'w \<Rightarrow>
     ('h, 'z) cacheLayer_scheme layerLRUCache \<times> 'w" where
  "removeLayers svc diffIDs [] cw = cw"
| "removeLayers svc diffIDs (d # ds) cw =
     removeLayers svc (diffIDs @ [d]) ds (removeLayer svc (CreateChainID svc (diffIDs @ [d])) cw)"

definition RemoveImage_l ::
  "('h, 'w) collaborators \<Rightarrow> imageID \<Rightarrow>
     ('h, 'z) cacheLayer_scheme layerLRUCache \<times> 'w \<Rightarrow>
     (('h, 'z) cacheLayer_scheme layerLRUCache \<times> 'w) result" where
  "RemoveImage_l svc imgID cw =
     (case cw of (c, w) \<Rightarrow>
        (case images_l c imgID of
           None \<Rightarrow> Ok (c, w)
         | Some img \<Rightarrow>
             (case RootFS img of
                None \<Rightarrow> Panic
              | Some ds \<Rightarrow>
                  Ok (removeLayers svc [] ds (c\<lparr>images_l := (images_l c)(imgID := None)\<rparr>, w)))))"

section \<open>archive-LRU (\<^verbatim>\<open>archive_lru.go\<close>, with the helpers of \<^verbatim>\<open>util.go\<close>)\<close>

record 'h archiveLayer = "'h cacheLayer" +
  compactSize :: int64

definition newArchiveLRUCache :: "int64 \<Rightarrow> 'h archiveLayer layerLRUCache" where
  "newArchiveLRUCache cap =
     \<lparr>capacity = cap, level = 0, images_l = Map.empty, layers = Map.empty,
      evictList_l =
        list_New \<lparr>layer_cl = None, size_cl = 0, images_cl = [], os_cl = [], compactSize = 0\<rparr>\<rparr>"

text \<open>\<^verbatim>\<open>getLayerArchiveInfo\<close>: the size of the archive file, if there is one.\<close>

definition getLayerArchiveInfo ::
  "('h, 'w) collaborators \<Rightarrow> diffID \<Rightarrow> 'w \<Rightarrow> int64 option \<times> oserror option" where
  "getLayerArchiveInfo svc diffID w =
     (case Stat svc diffID w of
        (fi, Some NotExist) \<Rightarrow> (None, None)
      | (fi, Some err) \<Rightarrow> (None, Some err)
      | (fi, None) \<Rightarrow> (fi, None))"

fun deleteImages_a ::
  "('h, 'w) collaborators \<Rightarrow> string list \<Rightarrow> 'w \<Rightarrow> scan \<times> 'w" where
  "deleteImages_a svc [] w = (Clear, w)"
| "deleteImages_a svc (imgID # rest) w =
     (case ImageDelete svc imgID False False w of
        (Some msg, w1) \<Rightarrow>
          if mentions msg ''conflict'' then (Conflict, w1)
          else if \<not> mentions msg ''no such image'' then
            (Failed, Log svc Error ''error deleting image: %v'' w1)
          else deleteImages_a svc rest w1
      | (None, w1) \<Rightarrow> deleteImages_a svc rest w1)"

text \<open>One round of the loop of \<^verbatim>\<open>archiveLRUCache.evict\<close>.\<close>

definition evict_a_body ::
  "('h, 'w) collaborators \<Rightarrow>
     'h archiveLayer layerLRUCache \<times> (chainID \<Rightarrow> nat) \<times> 'w \<Rightarrow>
     ('h archiveLayer layerLRUCache \<times> (chainID \<Rightarrow> nat) \<times> 'w) ctl" where
  "evict_a_body svc x =
     (case x of (c, checkboard, w) \<Rightarrow>
        (case Back (evictList_l c) of
           None \<Rightarrow> Panicked
         | Some e \<Rightarrow>
             (let al = val (evictList_l c) e in
              case layer_cl al of
                None \<Rightarrow> Panicked
              | Some h \<Rightarrow>
                  (let chainID = layerChainID svc h;
                       w1 = Log svc Info ''Eviciting %s, %d/%d (%.3f)'' w
                   in case deleteImages_a svc (images_cl al) w1 of
                        (Failed, w2) \<Rightarrow> Return (c, checkboard, w2)
                      | (Conflict, w2) \<Rightarrow>
                          bump svc chainID
                            (c, checkboard, Log svc Debug ''Image deletion conflict detected, skip'' w2)
                      | (Clear, w2) \<Rightarrow>
                          (case ReleaseReadOnlyLayer svc (layer_cl al) (os_cl al) w2 of
                             ((released, err), w3) \<Rightarrow>
                               if err \<noteq> None then
                                 Return (c, checkboard, Log svc Error ''error releasing layer: %v'' w3)
                               else if length released = 0 then
                                 bump svc chainID
                                   (c\<lparr>evictList_l := MoveToFront e (evictList_l c)\<rparr>,
                                    checkboard,
                                    Log svc Info ''Layer %s seems being used, skip'' w3)
                               else
                                 (case dropReleased svc released (c, w3) of
                                    (c2, w5) \<Rightarrow> Continue (c2, checkboard, w5)))))))"

definition evict_a ::
  "('h, 'w) collaborators \<Rightarrow> 'h archiveLayer layerLRUCache \<times> 'w \<Rightarrow>
     ('h archiveLayer layerLRUCache \<times> 'w) result option" where
  "evict_a svc cw =
     (case cw of (c, w) \<Rightarrow>
        if Len (evictList_l c) = 0 then
          Some (Ok (c, Log svc Debug ''Empty cache, nothing to evict'' w))
        else leave_evict
               (for_loop over_capacity (\<lambda>x. Some (evict_a_body svc x)) (c, (\<lambda>_. 0), w)))"

definition putLayer_a_body ::
  "('h, 'w) collaborators \<Rightarrow> chainID \<Rightarrow> image \<Rightarrow> 'h archiveLayer layerLRUCache \<times> 'w \<Rightarrow>
     ('h archiveLayer layerLRUCache \<times> 'w) \<times> bool" where
  "putLayer_a_body svc chainID img cw =
     (case cw of (c, w) \<Rightarrow>
        (let c1 = (case layers c chainID of
                     Some e \<Rightarrow>
                       c\<lparr>evictList_l := Remove e (evictList_l c),
                         level := level c - size_cl (val (evictList_l c) e)\<rparr>
                   | None \<Rightarrow> c)
         in case GetReadOnlyLayer svc chainID (OperatingSystem img) w of
              ((l, err), w1) \<Rightarrow>
                if err \<noteq> None then ((c1, Log svc Error ''error getting layer: %v'' w1), False)
                else
                  (case l of
                     None \<Rightarrow> ((c1, w1), True)
                   | Some h \<Rightarrow>
                       (case layerDiffSize svc h w1 of
                          (sz, err) \<Rightarrow>
                            if err \<noteq> None then
                              ((c1, Log svc Error ''error getting layer size: %v'' w1), False)
                            else
                              (let al = \<lparr>layer_cl = l, size_cl = sz, images_cl = [ID img],
                                         os_cl = OperatingSystem img, compactSize = 0\<rparr>;
                                   (al1, w2) =
                                     (case getLayerArchiveInfo svc (layerDiffID svc h) w1 of
                                        (Some fsz, err) \<Rightarrow>
                                          (al\<lparr>compactSize := fsz\<rparr>,
                                           Log svc Info ''Layer %s, full size: %d, compact size: %d'' w1)
                                      | (None, Some err) \<Rightarrow>
                                          (al, Log svc Error ''error getting layer archive info: %v'' w1)
                                      | (None, None) \<Rightarrow> (al, w1));
                                   w3 =
                                     (if size_cl al1 <s compactSize al1 then
                                        (case deleteArchive svc (layerDiffID svc h) w2 of
                                           (Some err, w4) \<Rightarrow>
                                             Log svc Error ''error deleting layer archive: %v'' w4
                                         | (None, w4) \<Rightarrow> w4)
                                      else w2)
                               in case PushFront al1 (evictList_l c1) of
                                    (e, lst) \<Rightarrow>
                                      ((c1\<lparr>layers := (layers c1)(chainID \<mapsto> e),
                                           evictList_l := lst,
                                           level := level c1 + sz\<rparr>,
                                        Log svc Info ''Put layer %s, %d/%d (%.3f)'' w3), False))))))"

definition putLayer_a ::
  "('h, 'w) collaborators \<Rightarrow> chainID \<Rightarrow> image \<Rightarrow> 'h archiveLayer layerLRUCache \<times> 'w \<Rightarrow>
     ('h archiveLayer layerLRUCache \<times> 'w) result option" where
  "putLayer_a svc chainID img cw = deferred (evict_a svc) (putLayer_a_body svc chainID img cw)"

definition PutImage_a ::
  "('h, 'w) collaborators \<Rightarrow> image option \<Rightarrow> 'h archiveLayer layerLRUCache \<times> 'w \<Rightarrow>
     ('h archiveLayer layerLRUCache \<times> 'w) result option" where
  "PutImage_a svc imgp cw =
     (case cw of (c, w) \<Rightarrow>
        (case imgp of
           None \<Rightarrow> Some (Ok (c, w))
         | Some img \<Rightarrow>
             (case checkImageSize svc (capacity c) img w of
                Panic \<Rightarrow> Some Panic
              | Ok (Some msg, w1) \<Rightarrow>
                  Some (Ok (c, Log svc Error ''error putting image in cache: %v'' w1))
              | Ok (None, w1) \<Rightarrow>
                  (case RootFS img of
                     None \<Rightarrow> Some Panic
                   | Some ds \<Rightarrow>
                       each_chain (\<lambda>chainID. putLayer_a svc chainID img) (chainIDsOf svc ds)
                         (c\<lparr>images_l := (images_l c)(ID img \<mapsto> img)\<rparr>, w1)))))"

definition updateLayer_a ::
  "('h, 'w) collaborators \<Rightarrow> chainID \<Rightarrow> image \<Rightarrow> 'h archiveLayer layerLRUCache \<times> 'w \<Rightarrow>
     ('h archiveLayer layerLRUCache \<times> 'w) result option" where
  "updateLayer_a svc chainID img cw =
     deferred (evict_a svc) (updateLayer_body svc chainID img cw, False)"

definition UpdateImage_a ::
  "('h, 'w) collaborators \<Rightarrow> string \<Rightarrow> 'h archiveLayer layerLRUCache \<times> 'w \<Rightarrow>
     ('h archiveLayer layerLRUCache \<times> 'w) result option" where
  "UpdateImage_a svc refOrID cw =
     (case cw of (c, w) \<Rightarrow>
        (case GetImage svc refOrID w of
           ((imgp, Some msg), w1) \<Rightarrow> Some (Ok (c, Log svc Warn ''error getting image: %v'' w1))
         | ((None, None), w1) \<Rightarrow> Some Panic
         | ((Some img, None), w1) \<Rightarrow>
             (case RootFS img of
                None \<Rightarrow> Some Panic
              | Some ds \<Rightarrow>
                  each_chain (\<lambda>chainID. updateLayer_a svc chainID img) (chainIDsOf svc ds) (c, w1))))"

section \<open>naive\<close>

text \<open>
  \<^verbatim>\<open>map[string]int64\<close> as an association list without repeated keys. Go leaves the
  order in which \<^verbatim>\<open>range\<close> visits a map open; the model visits the entries in the
  order of the list.
\<close>

record naiveCache = cacheBase +
  images_n :: "(string \<times> int64) list"

definition newNaiveCache :: "int64 \<Rightarrow> naiveCache" where
  "newNaiveCache cap = \<lparr>capacity = cap, level = 0, images_n = []\<rparr>"

fun evict_n_range ::
  "('h, 'w) collaborators \<Rightarrow> string \<Rightarrow> (string \<times> int64) list \<Rightarrow> naiveCache \<times> 'w \<Rightarrow> naiveCache \<times> 'w" where
  "evict_n_range svc current [] cw = cw"
| "evict_n_range svc current ((imgID, sz) # rest) cw =
     (if imgID = current then evict_n_range svc current rest cw
      else
        (case cw of (c, w) \<Rightarrow>
           (case ImageDelete svc imgID True True w of
              (err, w1) \<Rightarrow>
                evict_n_range svc current rest
                  (c\<lparr>images_n := filter (\<lambda>kv. fst kv \<noteq> imgID) (images_n c),
                     level := level c - sz\<rparr>,
                   if err \<noteq> None then Log svc Error ''error deleting image: %v'' w1 else w1))))"

definition evict_n :: "('h, 'w) collaborators \<Rightarrow> string \<Rightarrow> naiveCache \<times> 'w \<Rightarrow> naiveCache \<times> 'w" where
  "evict_n svc current cw =
     (if capacity (fst cw) <s level (fst cw) then
        (case evict_n_range svc current (images_n (fst cw)) cw of
           (c, w) \<Rightarrow> (c, Log svc Info ''Evicted images, %d/%d (%.3f)'' w))
      else cw)"

definition PutImage_n ::
  "('h, 'w) collaborators \<Rightarrow> image option \<Rightarrow> naiveCache \<times> 'w \<Rightarrow> (naiveCache \<times> 'w) result" where
  "PutImage_n svc imgp cw =
     (case cw of (c, w) \<Rightarrow>
        (case imgp of
           None \<Rightarrow> Ok (c, w)
         | Some img \<Rightarrow>
             (case checkImageSize svc (capacity c) img w of
                Panic \<Rightarrow> Panic
              | Ok (Some msg, w1) \<Rightarrow> Ok (c, Log svc Error ''error putting image in cache: %v'' w1)
              | Ok (None, w1) \<Rightarrow>
                  (case map_of (images_n c) (ID img) of
                     Some sz \<Rightarrow> Ok (c, w1)
                   | None \<Rightarrow>
                       (case getImageSize svc img w1 of
                          Panic \<Rightarrow> Panic
                        | Ok ((sz, Some msg), w2) \<Rightarrow> Ok (c, w2)
                        | Ok ((sz, None), w2) \<Rightarrow>
                            Ok (evict_n svc (ID img)
                                  (c\<lparr>images_n := images_n c @ [(ID img, sz)],
                                     level := level c + sz\<rparr>,
                                   Log svc Info ''Put image %s, %d/%d (%.3f)'' w2)))))))"

definition UpdateImage_n ::
  "('h, 'w) collaborators \<Rightarrow> string \<Rightarrow> naiveCache \<times> 'w \<Rightarrow> naiveCache \<times> 'w" where
  "UpdateImage_n svc refOrID cw = evict_n svc [] cw"

definition RemoveImage_n ::
  "('h, 'w) collaborators \<Rightarrow> imageID \<Rightarrow> naiveCache \<times> 'w \<Rightarrow> naiveCache \<times> 'w" where
  "RemoveImage_n svc imgID cw =
     (case cw of (c, w) \<Rightarrow>
        (case map_of (images_n c) imgID of
           None \<Rightarrow> (c, w)
         | Some sz \<Rightarrow>
             (c\<lparr>images_n := filter (\<lambda>kv. fst kv \<noteq> imgID) (images_n c),
                level := level c - sz\<rparr>,
              Log svc Info ''Removed image %s, %d/%d (%.3f)'' w)))"

section \<open>The factory (\<^verbatim>\<open>NewImageCache\<close> of \<^verbatim>\<open>driver.go\<close>)\<close>

record config =
  CachePolicy :: string
  CacheCapacity :: string
  CacheArchive :: bool

text \<open>The value behind the \<^verbatim>\<open>ImageCache\<close> interface: one of the four engines.\<close>

datatype 'h imageCache =
    ImageLRU imageLRUCache
  | LayerLRU "'h cacheLayer layerLRUCache"
  | ArchiveLRU "'h archiveLayer layerLRUCache"
  | Naive naiveCache

definition policyLayerLRU :: string where "policyLayerLRU = ''layer-lru''"
definition policyImageLRU :: string where "policyImageLRU = ''image-lru''"
definition policyArchiveLRU :: string where "policyArchiveLRU = ''archive-lru''"

text \<open>
  \<^verbatim>\<open>units.RAMInBytes\<close> belongs to the library \<^verbatim>\<open>docker/go-units\<close>, not to this
  repository: the factory takes it as the parameter \<open>RAMInBytes\<close>, a function from the
  text to the pair Go returns.
\<close>

definition NewImageCache ::
  "(string \<Rightarrow> int64 \<times> error) \<Rightarrow> config \<Rightarrow> 'h imageCache option \<times> error" where
  \<open>NewImageCache RAMInBytes cfg =
     (case RAMInBytes (CacheCapacity cfg) of
        (cap, Some err) \<Rightarrow> (None, Some err)
      | (cap, None) \<Rightarrow>
          (let policy = ToLower (CachePolicy cfg) in
           if policy = policyImageLRU then (Some (ImageLRU (newImageLRUCache cap)), None)
           else if policy = policyLayerLRU then (Some (LayerLRU (newLayerLRUCache cap)), None)
           else if policy = policyArchiveLRU then
             (if \<not> CacheArchive cfg then
                (None, Some ''"--cache-archive" is required for "archive-lru" cache policy'')
              else (Some (ArchiveLRU (newArchiveLRUCache cap)), None))
           else (Some (ImageLRU (newImageLRUCache cap)), None)))\<close>

section \<open>The layer cache driver's factory (\<^verbatim>\<open>newCacheDriver\<close> of \<^verbatim>\<open>daemon/images\<close>)\<close>

record 'h imageCacheItem =
  layer_it :: "'h option"
  images_it :: "imageID set"
  children_it :: "chainID set"

record imageCacheDriver =
  capacity_d :: int64
  level_d :: int64

record 'h lruLayerCacheDriver = imageCacheDriver +
  items :: "chainID \<rightharpoonup> elem"
  evictList_d :: "'h imageCacheItem golist"

definition newLRULayerCacheDriver :: "int64 \<Rightarrow> 'h lruLayerCacheDriver" where
  "newLRULayerCacheDriver cap =
     \<lparr>capacity_d = cap, level_d = 0, items = Map.empty,
      evictList_d = list_New \<lparr>layer_it = None, images_it = {}, children_it = {}\<rparr>\<rparr>"

definition DefaultCacheCapacity :: string where
  "DefaultCacheCapacity = ''1GB''"

text \<open>
  \<^verbatim>\<open>loadExistingImages\<close> puts every image of the store into the new driver. The
  driver's \<^verbatim>\<open>Put\<close> works on the layer store and the container list; here it is the
  parameter \<open>put\<close>, which gives the error it returns and the driver after it, or
  \<open>None\<close> when it does not return. \<open>imgs\<close> are the store's images in the order the
  \<^verbatim>\<open>range\<close> over its map visits them.
\<close>

fun loadExistingImages_range ::
  "(image \<Rightarrow> 'd \<times> 'w \<Rightarrow> (error \<times> 'd \<times> 'w) option) \<Rightarrow> ('h, 'w) collaborators \<Rightarrow>
     image list \<Rightarrow> 'd \<times> 'w \<Rightarrow> ('d \<times> 'w) option" where
  "loadExistingImages_range put svc [] dw = Some dw"
| "loadExistingImages_range put svc (img # rest) dw =
     (case put img dw of
        None \<Rightarrow> None
      | Some (Some err, d, w) \<Rightarrow>
          loadExistingImages_range put svc rest (d, Log svc Error ''Failed to put image %s'' w)
      | Some (None, d, w) \<Rightarrow> loadExistingImages_range put svc rest (d, w))"

definition loadExistingImages ::
  "(image \<Rightarrow> 'd \<times> 'w \<Rightarrow> (error \<times> 'd \<times> 'w) option) \<Rightarrow> ('h, 'w) collaborators \<Rightarrow>
     image list \<Rightarrow> 'd \<times> 'w \<Rightarrow> ('d \<times> 'w) option" where
  "loadExistingImages put svc imgs dw =
     loadExistingImages_range put svc imgs
       (fst dw, Log svc Info ''Loading %d images into cache'' (snd dw))"

definition newCacheDriver ::
  "(string \<Rightarrow> int64 \<times> error) \<Rightarrow>
   (image \<Rightarrow> 'h lruLayerCacheDriver \<times> 'w \<Rightarrow> (error \<times> 'h lruLayerCacheDriver \<times> 'w) option) \<Rightarrow>
   ('h, 'w) collaborators \<Rightarrow> string \<Rightarrow> string \<Rightarrow> image list \<Rightarrow> 'w \<Rightarrow>
     ('h lruLayerCacheDriver \<times> 'w) option" where
  \<open>newCacheDriver RAMInBytes put svc driver capacityText imgs w =
     (case RAMInBytes capacityText of
        (cap0, err) \<Rightarrow>
          (let (cap, w1) =
                 (if err \<noteq> None then
                    (fst (RAMInBytes DefaultCacheCapacity),
                     Log svc Error
                       ''Failed to parse the cache capacity: "%s", fall back to the default (%s)'' w)
                  else (cap0, w));
               d = (if driver = ''layer-lru'' then newLRULayerCacheDriver cap
                    else newLRULayerCacheDriver cap);
               w2 = Log svc Info ''Cache Driver: %s, capacity: %d bytes'' w1
           in loadExistingImages put svc imgs (d, w2)))\<close>

section \<open>Notions the statements use\<close>

text \<open>Calling an operation \<open>n\<close> times in a row, as long as it returns.\<close>

fun repeat :: "nat \<Rightarrow> ('s \<Rightarrow> 's result option) \<Rightarrow> 's \<Rightarrow> 's result option" where
  "repeat 0 f s = Some (Ok s)"
| "repeat (Suc n) f s =
     (case f s of
        None \<Rightarrow> None
      | Some Panic \<Rightarrow> Some Panic
      | Some (Ok s1) \<Rightarrow> repeat n f s1)"

text \<open>
  An answer of \<^verbatim>\<open>ImageDelete\<close> that lets the loop over a candidate's images go on: no
  error, or an error that says \<open>no such image\<close> and does not say \<open>conflict\<close>.
\<close>

definition passes :: "error \<Rightarrow> bool" where
  "passes err =
     (case err of
        None \<Rightarrow> True
      | Some msg \<Rightarrow> \<not> mentions msg ''conflict'' \<and> mentions msg ''no such image'')"

text \<open>
  What \<^verbatim>\<open>updateLayer\<close>, run for the chain IDs \<open>chs\<close>, has done to a cache: index, level
  and capacity are as before, and every record has gained the image ID once for each of
  the chain IDs that the index maps to it.
\<close>

definition appended :: "string \<Rightarrow> chainID list \<Rightarrow> ('h, 'z) cacheLayer_scheme layerLRUCache \<Rightarrow>
    ('h, 'z) cacheLayer_scheme layerLRUCache \<Rightarrow> bool" where
  "appended i chs c c' \<longleftrightarrow>
     layers c' = layers c \<and> level c' = level c \<and> capacity c' = capacity c \<and>
     (\<forall>e. images_cl (val (evictList_l c') e) =
            images_cl (val (evictList_l c) e) @
              replicate (length (filter (\<lambda>ch. layers c ch = Some e) chs)) i)"

text \<open>
  The allocator's promise for a list: every cell of the list was handed out before the
  element that is handed out next, so a new element is not yet in the list.
\<close>

definition fresh_ok :: "'v golist \<Rightarrow> bool" where
  "fresh_ok l = (\<forall>e \<in> set (cells l). e < fresh l)"

text \<open>
  For image-LRU: image \<open>i\<close> is not in the map, or the map sends it to element \<open>e\<close>,
  which holds it and is the front of the list and nowhere else in it.
\<close>

definition at_front :: "imageID \<Rightarrow> elem \<Rightarrow> imageLRUCache \<Rightarrow> bool" where
  "at_front i e c \<longleftrightarrow>
     images_i c i = None \<or>
     (images_i c i = Some e \<and> ID (val (evictList_i c) e) = i \<and>
      (\<exists>rest. cells (evictList_i c) = e # rest \<and> e \<notin> set rest))"

section \<open>Collaborators and inputs of the worked examples\<close>

text \<open>
  A stand-in for \<^verbatim>\<open>units.RAMInBytes\<close> that reads two texts and refuses the rest with
  the library's error.
\<close>

definition sizes :: "string \<Rightarrow> int64 \<times> error" where
  "sizes s = (if s = ''100'' then (100, None)
              else if s = ''1GB'' then (1073741824, None)
              else (-1, Some ''invalid size''))"

text \<open>
  A service where every call succeeds and nothing is remembered: a layer's handle is its
  chain ID, every size is 10, no image is known, no archive exists. The examples change
  the fields they are about.
\<close>

definition plain :: "(chainID, 'w) collaborators" where
  "plain =
     \<lparr>GetImage = (\<lambda>r w. ((None, Some ''No such image''), w)),
      ImageDelete = (\<lambda>i f p w. (None, w)),
      GetReadOnlyLayer = (\<lambda>c os w. ((Some c, None), w)),
      ReleaseReadOnlyLayer = (\<lambda>h os w. (([], None), w)),
      layerSize = (\<lambda>h w. (10, None)),
      layerDiffSize = (\<lambda>h w. (10, None)),
      layerChainID = (\<lambda>h. h),
      layerDiffID = (\<lambda>h. h),
      CreateChainID = concat,
      Stat = (\<lambda>d w. (None, Some NotExist)),
      RemoveAll = (\<lambda>d w. (None, w)),
      Log = (\<lambda>l m w. w)\<rparr>"

text \<open>The same service with a logger that appends to the world.\<close>

definition logging :: "(chainID, (level \<times> string) list) collaborators" where
  "logging = plain\<lparr>Log := (\<lambda>l m w. w @ [(l, m)])\<rparr>"

text \<open>Images with one layer each, and the records the layer engines keep for a layer.\<close>

definition imageA :: image where
  "imageA = \<lparr>ID = ''A'', RootFS = Some [''a''], OperatingSystem = ''linux''\<rparr>"

definition imageB :: image where
  "imageB = \<lparr>ID = ''B'', RootFS = Some [''b''], OperatingSystem = ''linux''\<rparr>"

definition imageX :: image where
  "imageX = \<lparr>ID = ''X'', RootFS = Some [''x''], OperatingSystem = ''linux''\<rparr>"

definition imageY :: image where
  "imageY = \<lparr>ID = ''Y'', RootFS = Some [''y''], OperatingSystem = ''linux''\<rparr>"

definition layer_rec :: "chainID \<Rightarrow> string list \<Rightarrow> chainID cacheLayer" where
  "layer_rec c imgs = \<lparr>layer_cl = Some c, size_cl = 10, images_cl = imgs, os_cl = ''linux''\<rparr>"

definition archive_rec :: "chainID \<Rightarrow> string list \<Rightarrow> chainID archiveLayer" where
  "archive_rec c imgs =
     \<lparr>layer_cl = Some c, size_cl = 10, images_cl = imgs, os_cl = ''linux'', compactSize = 0\<rparr>"

text \<open>
  For C1: the image store no longer has image A, whose size is 20. The image-LRU cache of
  capacity 30 holds A; \<open>cache_BA\<close> is that cache once B, also of size 20, is pushed.
\<close>

definition gone :: "(chainID, unit) collaborators" where
  "gone = plain\<lparr>ImageDelete := (\<lambda>i f p w. (Some ''No such image: A'', w)),
                 layerSize := (\<lambda>h w. (20, None))\<rparr>"

definition cache_A :: imageLRUCache where
  "cache_A = \<lparr>capacity = 30, level = 20, images_i = [''A'' \<mapsto> 0],
              evictList_i = \<lparr>cells = [0], val = (\<lambda>_. imageA), fresh = 1\<rparr>\<rparr>"

definition cache_BA :: imageLRUCache where
  "cache_BA = \<lparr>capacity = 30, level = 40, images_i = [''A'' \<mapsto> 0, ''B'' \<mapsto> 1],
               evictList_i = \<lparr>cells = [1, 0], val = (\<lambda>_. imageA)(1 := imageB), fresh = 2\<rparr>\<rparr>"

text \<open>
  For C2: every image is in use by a container, and the world lists the images
  \<^verbatim>\<open>ImageDelete\<close> was asked to delete. The caches hold layer x at the front and layer y
  at the back, 20 bytes against a capacity of 15.
\<close>

definition busy :: "(chainID, string list) collaborators" where
  "busy = plain\<lparr>ImageDelete :=
     (\<lambda>i f p w.
        (Some ''conflict: unable to delete (cannot be forced) - image is being used by running container'',
         w @ [i]))\<rparr>"

definition layers_xy :: "chainID cacheLayer layerLRUCache" where
  "layers_xy =
     \<lparr>capacity = 15, level = 20, images_l = [''X'' \<mapsto> imageX, ''Y'' \<mapsto> imageY],
      layers = [''y'' \<mapsto> 0, ''x'' \<mapsto> 1],
      evictList_l =
        \<lparr>cells = [1, 0], val = (\<lambda>_. layer_rec ''y'' [''Y''])(1 := layer_rec ''x'' [''X'']),
         fresh = 2\<rparr>\<rparr>"

definition archives_xy :: "chainID archiveLayer layerLRUCache" where
  "archives_xy =
     \<lparr>capacity = 15, level = 20, images_l = [''X'' \<mapsto> imageX, ''Y'' \<mapsto> imageY],
      layers = [''y'' \<mapsto> 0, ''x'' \<mapsto> 1],
      evictList_l =
        \<lparr>cells = [1, 0], val = (\<lambda>_. archive_rec ''y'' [''Y''])(1 := archive_rec ''x'' [''X'']),
         fresh = 2\<rparr>\<rparr>"

text \<open>
  For C3: the layer store fails to release a layer, with an error that is not
  \<open>layer not retained\<close>. The caches hold the one layer y, 10 bytes against a capacity of 5.
\<close>

definition broken :: "(chainID, unit) collaborators" where
  "broken = plain\<lparr>ReleaseReadOnlyLayer :=
     (\<lambda>h os w. (([], Some ''driver failed to remove layer''), w))\<rparr>"

definition layers_y :: "chainID cacheLayer layerLRUCache" where
  "layers_y =
     \<lparr>capacity = 5, level = 10, images_l = [''Y'' \<mapsto> imageY], layers = [''y'' \<mapsto> 0],
      evictList_l = \<lparr>cells = [0], val = (\<lambda>_. layer_rec ''y'' [''Y'']), fresh = 1\<rparr>\<rparr>"

definition archives_y :: "chainID archiveLayer layerLRUCache" where
  "archives_y =
     \<lparr>capacity = 5, level = 10, images_l = [''Y'' \<mapsto> imageY], layers = [''y'' \<mapsto> 0],
      evictList_l = \<lparr>cells = [0], val = (\<lambda>_. archive_rec ''y'' [''Y'']), fresh = 1\<rparr>\<rparr>"

text \<open>
  For C7: the world counts the calls of \<^verbatim>\<open>GetReadOnlyLayer\<close>, and the second call
  fails. The caches hold image A with its one layer a.
\<close>

definition flaky :: "(chainID, nat) collaborators" where
  "flaky = plain\<lparr>GetReadOnlyLayer :=
     (\<lambda>c os n. if n = 1 then ((None, Some ''context deadline exceeded''), Suc n)
                else ((Some c, None), Suc n))\<rparr>"

definition layers_a :: "chainID cacheLayer layerLRUCache" where
  "layers_a =
     \<lparr>capacity = 100, level = 10, images_l = [''A'' \<mapsto> imageA], layers = [''a'' \<mapsto> 0],
      evictList_l = \<lparr>cells = [0], val = (\<lambda>_. layer_rec ''a'' [''A'']), fresh = 1\<rparr>\<rparr>"

definition archives_a :: "chainID archiveLayer layerLRUCache" where
  "archives_a =
     \<lparr>capacity = 100, level = 10, images_l = [''A'' \<mapsto> imageA], layers = [''a'' \<mapsto> 0],
      evictList_l = \<lparr>cells = [0], val = (\<lambda>_. archive_rec ''a'' [''A'']), fresh = 1\<rparr>\<rparr>"

text \<open>
  For C6: every layer has an archive file of 50 bytes until the file is removed; the
  world lists the archive paths that \<^verbatim>\<open>os.RemoveAll\<close> was called on.
\<close>

definition bloated :: "(chainID, diffID list) collaborators" where
  "bloated = plain\<lparr>Stat := (\<lambda>d w. if d \<in> set w then (None, Some NotExist) else (Some 50, None)),
                    RemoveAll := (\<lambda>d w. (None, w @ [d]))\<rparr>"

text \<open>
  For C8: layer a is shared by the images A and B (\<open>plain\<close> releases nothing); and a
  service in which a release of layer a finds no other reference and reports a released.
\<close>

definition layers_shared :: "chainID cacheLayer layerLRUCache" where
  "layers_shared =
     \<lparr>capacity = 100, level = 10,
      images_l = [''A'' \<mapsto> imageA, ''B'' \<mapsto> imageA\<lparr>ID := ''B''\<rparr>],
      layers = [''a'' \<mapsto> 0],
      evictList_l = \<lparr>cells = [0], val = (\<lambda>_. layer_rec ''a'' [''A'', ''B'']), fresh = 1\<rparr>\<rparr>"

definition freeing :: "(chainID, unit) collaborators" where
  "freeing = plain\<lparr>ReleaseReadOnlyLayer :=
     (\<lambda>h os w. (([\<lparr>ChainID = ''a'', DiffID = ''a'', DiffSize = 10\<rparr>], None), w))\<rparr>"

text \<open>
  For C9: the world is the number of references held on layer d, of 10 bytes; a release of
  d that drops the last reference reports d released. Layer a has 20 bytes. The layer-LRU
  cache of capacity 25 holds d while two references are held on it. \<open>layers_da\<close> and
  \<open>layers_only_a\<close> are the caches after the first and the second \<^verbatim>\<open>PutImage\<close> of A.
\<close>

definition imageD :: image where
  "imageD = \<lparr>ID = ''D'', RootFS = Some [''d''], OperatingSystem = ''linux''\<rparr>"

definition counted :: "(chainID, nat) collaborators" where
  "counted = plain
     \<lparr>GetReadOnlyLayer := (\<lambda>c os n. ((Some c, None), if c = ''d'' then Suc n else n)),
      ReleaseReadOnlyLayer :=
        (\<lambda>h os n.
           if h = Some ''d'' then
             (case n of
                0 \<Rightarrow> (([], Some ''layer not retained''), 0)
              | Suc m \<Rightarrow>
                  ((if m = 0 then [\<lparr>ChainID = ''d'', DiffID = ''d'', DiffSize = 10\<rparr>] else [], None), m))
           else (([], None), n)),
      layerSize := (\<lambda>h w. (if h = ''a'' then 20 else 10, None)),
      layerDiffSize := (\<lambda>h w. (if h = ''a'' then 20 else 10, None))\<rparr>"

definition layers_d :: "chainID cacheLayer layerLRUCache" where
  "layers_d =
     \<lparr>capacity = 25, level = 10, images_l = [''D'' \<mapsto> imageD], layers = [''d'' \<mapsto> 0],
      evictList_l = \<lparr>cells = [0], val = (\<lambda>_. layer_rec ''d'' [''D'']), fresh = 1\<rparr>\<rparr>"

definition layers_da :: "chainID cacheLayer layerLRUCache" where
  "layers_da =
     \<lparr>capacity = 25, level = 30, images_l = [''D'' \<mapsto> imageD, ''A'' \<mapsto> imageA],
      layers = [''d'' \<mapsto> 0, ''a'' \<mapsto> 1],
      evictList_l =
        \<lparr>cells = [0, 1],
         val = (\<lambda>_. layer_rec ''d'' [''D''])(1 := (layer_rec ''a'' [''A''])\<lparr>size_cl := 20\<rparr>),
         fresh = 2\<rparr>\<rparr>"

definition layers_only_a :: "chainID cacheLayer layerLRUCache" where
  "layers_only_a =
     \<lparr>capacity = 25, level = 20, images_l = [''D'' \<mapsto> imageD, ''A'' \<mapsto> imageA],
      layers = [''a'' \<mapsto> 2],
      evictList_l =
        \<lparr>cells = [2],
         val = (\<lambda>_. layer_rec ''d'' [''D''])
                 (1 := (layer_rec ''a'' [''A''])\<lparr>size_cl := 20\<rparr>,
                  2 := (layer_rec ''a'' [''A''])\<lparr>size_cl := 20\<rparr>),
         fresh = 3\<rparr>\<rparr>"

text \<open>The image-LRU and the naive cache of capacity 100 once image A was put into them.\<close>

definition cache_put_A :: imageLRUCache where
  "cache_put_A =
     \<lparr>capacity = 100, level = 10, images_i = [''A'' \<mapsto> 0],
      evictList_i =
        \<lparr>cells = [0],
         val = (\<lambda>_. \<lparr>ID = [], RootFS = None, OperatingSystem = []\<rparr>)(0 := imageA),
         fresh = 1\<rparr>\<rparr>"

definition naive_put_A :: naiveCache where
  "naive_put_A = \<lparr>capacity = 100, level = 10, images_n = [(''A'', 10)]\<rparr>"

text \<open>
  For C10: every reference resolves to image A; the world lists the images
  \<^verbatim>\<open>ImageDelete\<close> was called for, and a second deletion of the same image finds it gone.
\<close>

definition recording :: "(chainID, string list) collaborators" where
  "recording = plain\<lparr>GetImage := (\<lambda>r w. ((Some imageA, None), w)),
     ImageDelete := (\<lambda>i f p w. (if i \<in> set w then Some ''No such image: A'' else None, w @ [i]))\<rparr>"

text \<open>
  The same service with a layer store that reports layer a released. The cache holds
  layer b at the front and, at the back, layer a whose record lists image A three times;
  \<open>layers_b_left\<close> is the cache once a is evicted.
\<close>

definition reclaiming :: "(chainID, string list) collaborators" where
  "reclaiming = recording\<lparr>ReleaseReadOnlyLayer :=
     (\<lambda>h os w. (([\<lparr>ChainID = ''a'', DiffID = ''a'', DiffSize = 10\<rparr>], None), w))\<rparr>"

definition layers_ba_thrice :: "chainID cacheLayer layerLRUCache" where
  "layers_ba_thrice =
     \<lparr>capacity = 15, level = 20, images_l = [''A'' \<mapsto> imageA, ''B'' \<mapsto> imageB],
      layers = [''a'' \<mapsto> 0, ''b'' \<mapsto> 1],
      evictList_l =
        \<lparr>cells = [1, 0],
         val = (\<lambda>_. layer_rec ''a'' [''A'', ''A'', ''A''])(1 := layer_rec ''b'' [''B'']),
         fresh = 2\<rparr>\<rparr>"

definition layers_b_left :: "chainID cacheLayer layerLRUCache" where
  "layers_b_left =
     \<lparr>capacity = 15, level = 10, images_l = [''A'' \<mapsto> imageA, ''B'' \<mapsto> imageB],
      layers = [''b'' \<mapsto> 1],
      evictList_l =
        \<lparr>cells = [1],
         val = (\<lambda>_. layer_rec ''a'' [''A'', ''A'', ''A''])(1 := layer_rec ''b'' [''B'']),
         fresh = 2\<rparr>\<rparr>"

section \<open>Loops: what a run that ends has kept, and runs that never end\<close>

lemma for_loop_Some_leaves:
  fixes body :: "'s \<Rightarrow> 's ctl option"
  assumes run: "for_loop cond body s = Some r"
    and step: "\<And>x. I x \<Longrightarrow> cond x \<and> (body x = None \<or> (\<exists>y. body x = Some (Continue y) \<and> I y))"
  shows "\<not> I s"
proof -
  have "cond = cond \<and> body = body \<longrightarrow> \<not> I s"
  proof (rule for_loop.raw_induct
      [where P = "\<lambda>cd bd x r. cd = cond \<and> bd = body \<longrightarrow> \<not> I x", OF _ run])
    fix lp :: "('s \<Rightarrow> bool) \<Rightarrow> ('s \<Rightarrow> 's ctl option) \<Rightarrow> 's \<Rightarrow> 's ctl option"
    fix cd bd x r
    assume IH: "\<And>cd bd x r. lp cd bd x = Some r \<Longrightarrow> cd = cond \<and> bd = body \<longrightarrow> \<not> I x"
      and eq: "(if cd x then
                  (case bd x of
                     None \<Rightarrow> None
                   | Some (Continue s') \<Rightarrow> lp cd bd s'
                   | Some (Return s') \<Rightarrow> Some (Return s')
                   | Some Panicked \<Rightarrow> Some Panicked)
                else Some (Continue x)) = Some r"
    show "cd = cond \<and> bd = body \<longrightarrow> \<not> I x"
    proof (intro impI notI)
      assume same: "cd = cond \<and> bd = body" and inv: "I x"
      from step [OF inv] have c: "cond x"
        and b: "body x = None \<or> (\<exists>y. body x = Some (Continue y) \<and> I y)" by blast+
      from eq same c b obtain y where "lp cond body y = Some r" and "I y" by auto
      with IH show False by blast
    qed
  qed
  then show ?thesis by simp
qed

lemma for_loop_diverges:
  assumes "I s"
    and "\<And>x. I x \<Longrightarrow> cond x \<and> (body x = None \<or> (\<exists>y. body x = Some (Continue y) \<and> I y))"
  shows "for_loop cond body s = None"
proof (cases "for_loop cond body s")
  case (Some r)
  from for_loop_Some_leaves [OF Some, of I] assms show ?thesis by blast
qed simp

lemma for_loop_invariant:
  fixes body :: "'s \<Rightarrow> 's ctl option"
  assumes run: "for_loop cond body s = Some r"
    and init: "I s"
    and step: "\<And>x y. I x \<Longrightarrow> cond x \<Longrightarrow> body x = Some (Continue y) \<Longrightarrow> I y"
  shows "(\<exists>y. r = Continue y \<and> I y \<and> \<not> cond y) \<or>
         (\<exists>x y. r = Return y \<and> I x \<and> cond x \<and> body x = Some (Return y)) \<or>
         (\<exists>x. r = Panicked \<and> I x \<and> cond x \<and> body x = Some Panicked)"
proof -
  let ?Q = "\<lambda>r. (\<exists>y. r = Continue y \<and> I y \<and> \<not> cond y) \<or>
         (\<exists>x y. r = Return y \<and> I x \<and> cond x \<and> body x = Some (Return y)) \<or>
         (\<exists>x. r = Panicked \<and> I x \<and> cond x \<and> body x = Some Panicked)"
  have "cond = cond \<and> body = body \<and> I s \<longrightarrow> ?Q r"
  proof (rule for_loop.raw_induct
      [where P = "\<lambda>cd bd x r. cd = cond \<and> bd = body \<and> I x \<longrightarrow> ?Q r", OF _ run])
    fix lp :: "('s \<Rightarrow> bool) \<Rightarrow> ('s \<Rightarrow> 's ctl option) \<Rightarrow> 's \<Rightarrow> 's ctl option"
    fix cd bd x r
    assume IH: "\<And>cd bd x r. lp cd bd x = Some r \<Longrightarrow> cd = cond \<and> bd = body \<and> I x \<longrightarrow> ?Q r"
      and eq: "(if cd x then
                  (case bd x of
                     None \<Rightarrow> None
                   | Some (Continue s') \<Rightarrow> lp cd bd s'
                   | Some (Return s') \<Rightarrow> Some (Return s')
                   | Some Panicked \<Rightarrow> Some Panicked)
                else Some (Continue x)) = Some r"
    show "cd = cond \<and> bd = body \<and> I x \<longrightarrow> ?Q r"
    proof (intro impI)
      assume a: "cd = cond \<and> bd = body \<and> I x"
      show "?Q r"
      proof (cases "cond x")
        case False
        with eq a show ?thesis by auto
      next
        case True
        show ?thesis
        proof (cases "body x")
          case None
          with eq a True show ?thesis by simp
        next
          case (Some t)
          show ?thesis
          proof (cases t)
            case (Continue y)
            with eq a True Some have "lp cond body y = Some r" by simp
            moreover from step a True Some Continue have "I y" by blast
            ultimately show ?thesis using IH by blast
          next
            case (Return y)
            with eq a True Some show ?thesis by auto
          next
            case Panicked
            with eq a True Some show ?thesis by auto
          qed
        qed
      qed
    qed
  qed
  with init show ?thesis by simp
qed


section \<open>The factories\<close>

text \<open>
  C5, as the spec states it, fails: the policy name \<open>naive\<close> is no case of the factory's
  switch and falls to its default, the image-LRU engine.
\<close>

theorem naive_policy_selects_image_lru:
  "NewImageCache sizes \<lparr>CachePolicy = ''naive'', CacheCapacity = ''100'', CacheArchive = True\<rparr>
     = (Some (ImageLRU (newImageLRUCache 100)) :: chainID imageCache option, None)"
  by (simp add: NewImageCache_def sizes_def ToLower_def lower_char_def policyImageLRU_def
      policyLayerLRU_def policyArchiveLRU_def)

text \<open>
  C5, amended: when the capacity parses, the lower-cased policy name \<open>image-lru\<close> selects
  image-LRU, \<open>layer-lru\<close> layer-LRU, \<open>archive-lru\<close> archive-LRU if archive mode is on
  and a construction error if it is off; every other name selects image-LRU, and no
  name selects the naive engine.
\<close>

theorem NewImageCache_selects:
  fixes made :: "'h imageCache option \<times> error"
  assumes "RAMInBytes (CacheCapacity cfg) = (cap, None)"
    and "made = NewImageCache RAMInBytes cfg"
  shows "(ToLower (CachePolicy cfg) = ''image-lru'' \<longrightarrow>
            made = (Some (ImageLRU (newImageLRUCache cap)), None)) \<and>
         (ToLower (CachePolicy cfg) = ''layer-lru'' \<longrightarrow>
            made = (Some (LayerLRU (newLayerLRUCache cap)), None)) \<and>
         (ToLower (CachePolicy cfg) = ''archive-lru'' \<and> CacheArchive cfg \<longrightarrow>
            made = (Some (ArchiveLRU (newArchiveLRUCache cap)), None)) \<and>
         (ToLower (CachePolicy cfg) = ''archive-lru'' \<and> \<not> CacheArchive cfg \<longrightarrow>
            fst made = None \<and> snd made \<noteq> None) \<and>
         (ToLower (CachePolicy cfg) \<notin> {''image-lru'', ''layer-lru'', ''archive-lru''} \<longrightarrow>
            made = (Some (ImageLRU (newImageLRUCache cap)), None)) \<and>
         (\<forall>c. fst made \<noteq> Some (Naive c))"
  using assms
  by (auto simp: NewImageCache_def policyImageLRU_def policyLayerLRU_def policyArchiveLRU_def Let_def)

theorem NewImageCache_selects_witness:
  "sizes ''100'' = (100, None) \<and> ToLower ''Archive-LRU'' = ''archive-lru'' \<and>
   NewImageCache sizes \<lparr>CachePolicy = ''Archive-LRU'', CacheCapacity = ''100'', CacheArchive = True\<rparr>
     = (Some (ArchiveLRU (newArchiveLRUCache 100)) :: chainID imageCache option, None)"
proof -
  let ?cfg = "\<lparr>CachePolicy = ''Archive-LRU'', CacheCapacity = ''100'', CacheArchive = True\<rparr>"
  let ?made = "NewImageCache sizes ?cfg :: chainID imageCache option \<times> error"
  have p: "sizes (CacheCapacity ?cfg) = (100, None)"
    by (simp add: sizes_def)
  have l: "ToLower ''Archive-LRU'' = ''archive-lru''"
    by (simp add: ToLower_def lower_char_def)
  from l NewImageCache_selects [of sizes ?cfg 100 ?made, OF p refl]
  have "?made = (Some (ArchiveLRU (newArchiveLRUCache 100)), None)"
    by simp
  with l show ?thesis
    by (simp add: sizes_def)
qed

text \<open>
  C4, as the spec states it, fails for \<^verbatim>\<open>NewImageCache\<close>: a capacity that does not
  parse ends the construction with the parser's error and no cache.
\<close>

theorem NewImageCache_unparsable_capacity_fails:
  "NewImageCache sizes \<lparr>CachePolicy = ''image-lru'', CacheCapacity = ''lots'', CacheArchive = False\<rparr>
     = (None :: chainID imageCache option, Some ''invalid size'')"
  by (simp add: NewImageCache_def sizes_def)

text \<open>
  C4, amended: on a capacity text that does not parse, \<^verbatim>\<open>newCacheDriver\<close> logs an
  error, builds the LRU layer driver with the capacity read from the default text
  \<open>1GB\<close>, and goes on to load the store's images into it exactly as it would have with
  that capacity configured; \<^verbatim>\<open>NewImageCache\<close> returns the parse error and no cache.
\<close>

theorem unparsable_capacity:
  fixes made :: "'h imageCache option \<times> error"
  assumes "snd (RAMInBytes capacityText) \<noteq> None"
    and "made = NewImageCache RAMInBytes (cfg\<lparr>CacheCapacity := capacityText\<rparr>)"
  shows \<open>newCacheDriver RAMInBytes put svc driver capacityText imgs w =
           loadExistingImages put svc imgs
             (newLRULayerCacheDriver (fst (RAMInBytes ''1GB'')),
              Log svc Info ''Cache Driver: %s, capacity: %d bytes''
                (Log svc Error
                   ''Failed to parse the cache capacity: "%s", fall back to the default (%s)'' w)) \<and>
         made = (None, snd (RAMInBytes capacityText))\<close>
  using assms
  by (cases "RAMInBytes capacityText")
     (auto simp: newCacheDriver_def NewImageCache_def DefaultCacheCapacity_def Let_def)

theorem unparsable_capacity_witness:
  \<open>snd (sizes ''lots'') \<noteq> None \<and>
   newCacheDriver sizes (\<lambda>img dw. Some (None, dw)) logging ''layer-lru'' ''lots'' [] [] =
     Some (newLRULayerCacheDriver 1073741824 :: chainID lruLayerCacheDriver,
           [(Error, ''Failed to parse the cache capacity: "%s", fall back to the default (%s)''),
            (Info, ''Cache Driver: %s, capacity: %d bytes''),
            (Info, ''Loading %d images into cache'')])\<close>
proof -
  let ?cfg = "\<lparr>CachePolicy = ''image-lru'', CacheCapacity = ''100'', CacheArchive = False\<rparr>"
  let ?made = "NewImageCache sizes (?cfg\<lparr>CacheCapacity := ''lots''\<rparr>) :: chainID imageCache option \<times> error"
  have p: "snd (sizes ''lots'') \<noteq> None"
    by (simp add: sizes_def)
  from unparsable_capacity [of sizes "''lots''" ?made ?cfg "\<lambda>img dw. Some (None, dw)" logging
      "''layer-lru''" "[]" "[]", OF p refl] p
  show ?thesis
    by (simp add: loadExistingImages_def logging_def plain_def sizes_def)
qed

section \<open>Eviction and the collaborators' errors\<close>

text \<open>
  A round of image-LRU's loop that is told \<open>no such image\<close> about its candidate ends in
  \<^verbatim>\<open>continue\<close> with the cache as it was, for any cache and any service.
\<close>

lemma evict_i_round_no_such_image:
  assumes "Back (evictList_i c) = Some e"
    and "getImageSize svc (val (evictList_i c) e) w = Ok ((sz, None), w1)"
    and "ImageDelete svc (ID (val (evictList_i c) e)) True False
           (Log svc Info ''Evicting image %s ...'' w1) = (Some msg, w3)"
    and "mentions msg ''no such image''"
  shows "\<exists>w'. evict_i_body svc (c, w) = Continue (c, w')"
  using assms by (simp add: evict_i_body_def Let_def)

lemma mentions_no_such_image:
  "mentions ''No such image: A'' ''no such image''"
  "\<not> mentions ''No such image: A'' ''conflict''"
  by (simp_all add: mentions_def ToLower_def lower_char_def)

lemma evict_i_body_gone: "evict_i_body gone (cache_BA, ()) = Continue (cache_BA, ())"
  by (simp add: evict_i_body_def imageA_def imageB_def gone_def plain_def cache_BA_def Back_def
      getImageSize_def Let_def mentions_no_such_image)

lemma PutImage_i_gone: "PutImage_i gone (Some imageB) (cache_A, ()) = evict_i gone (cache_BA, ())"
  by (simp add: PutImage_i_def checkImageSize_def getImageSize_def Let_def imageA_def imageB_def
      gone_def plain_def cache_A_def cache_BA_def PushFront_def eval_nat_numeral)

text \<open>
  C1, where the code departs from the claim: image-LRU holds A (20 bytes, capacity 30),
  the image store has lost A, and B (20 bytes) is put. The round of the eviction loop
  that meets \<open>No such image\<close> for the back candidate A changes nothing: A stays in the
  map and in the list and the level stays 40, so the loop repeats the same round for
  ever and \<^verbatim>\<open>PutImage\<close> never returns.
\<close>

theorem no_such_image_candidate_stays:
  "evict_i_body gone (cache_BA, ()) = Continue (cache_BA, ()) \<and>
   images_i cache_BA ''A'' = Some 0 \<and> Back (evictList_i cache_BA) = Some 0 \<and>
   level cache_BA = 40 \<and>
   PutImage_i gone (Some imageB) (cache_A, ()) = None"
proof -
  have "for_loop over_capacity_i (\<lambda>x. Some (evict_i_body gone x)) (cache_BA, ()) = None"
    by (rule for_loop_diverges [where I = "\<lambda>x. x = (cache_BA, ())"])
       (simp_all add: evict_i_body_gone over_capacity_i_def, simp add: cache_BA_def)
  then have "PutImage_i gone (Some imageB) (cache_A, ()) = None"
    by (simp add: PutImage_i_gone evict_i_def returned_def Len_def, simp add: cache_BA_def)
  then show ?thesis
    by (simp add: evict_i_body_gone, simp add: cache_BA_def Back_def)
qed

text \<open>
  A round of the layer engines' loops that meets a conflict leaves the cache as it was:
  only the checkboard and the world change.
\<close>

lemma evict_l_round_conflict:
  assumes "Back (evictList_l c) = Some e"
    and "layer_cl (val (evictList_l c) e) = Some h"
    and "deleteImages_l svc current (images_cl (val (evictList_l c) e))
           (Log svc Info ''Eviciting %s, %d/%d (%.3f)'' w) = (Conflict, w2)"
  shows "\<exists>cb' w'. evict_l_body svc current (c, cb, w) = Some (Continue (c, cb', w')) \<or>
                   evict_l_body svc current (c, cb, w) = Some (Return (c, cb', w'))"
  using assms by (simp add: evict_l_body_def bump_def Let_def)

lemma evict_a_round_conflict:
  assumes "Back (evictList_l c) = Some e"
    and "layer_cl (val (evictList_l c) e) = Some h"
    and "deleteImages_a svc (images_cl (val (evictList_l c) e))
           (Log svc Info ''Eviciting %s, %d/%d (%.3f)'' w) = (Conflict, w2)"
  shows "\<exists>cb' w'. evict_a_body svc (c, cb, w) = Continue (c, cb', w') \<or>
                   evict_a_body svc (c, cb, w) = Return (c, cb', w')"
  using assms by (simp add: evict_a_body_def bump_def Let_def)

lemma mentions_conflict:
  "mentions ''conflict: unable to delete (cannot be forced) - image is being used by running container''
     ''conflict''"
  by (simp add: mentions_def ToLower_def lower_char_def)

lemma Log_busy: "Log busy l m w = w"
  by (simp add: busy_def plain_def)

lemma evict_l_body_busy:
  "evict_l_body busy [] (layers_xy, cb, w) = Some (bump busy ''y'' (layers_xy, cb, w @ [''Y'']))"
  by (simp add: evict_l_body_def layers_xy_def Back_def layer_rec_def busy_def plain_def
      mentions_conflict Let_def)

lemma evict_a_body_busy:
  "evict_a_body busy (archives_xy, cb, w) = bump busy ''y'' (archives_xy, cb, w @ [''Y''])"
  by (simp add: evict_a_body_def archives_xy_def Back_def archive_rec_def busy_def plain_def
      mentions_conflict Let_def)

lemma over_capacity_xy:
  "over_capacity (layers_xy, cb, w)" "over_capacity (archives_xy, cb, w)"
  by (simp_all add: over_capacity_def layers_xy_def archives_xy_def)

text \<open>
  C2, where the code departs from the claim: the back candidate y belongs to an image in
  use, so \<^verbatim>\<open>ImageDelete\<close> answers with a conflict. Both engines ask for the same
  deletion four times and give up; the list is as it was, y still at the back and not
  moved to the front, and the image of layer x was never tried.
\<close>

theorem conflict_keeps_candidate_at_back:
  "evict_l busy [] (layers_xy, []) = Some (Ok (layers_xy, [''Y'', ''Y'', ''Y'', ''Y''])) \<and>
   evict_a busy (archives_xy, []) = Some (Ok (archives_xy, [''Y'', ''Y'', ''Y'', ''Y''])) \<and>
   cells (evictList_l layers_xy) = [1, 0] \<and> cells (evictList_l archives_xy) = [1, 0] \<and>
   layers layers_xy ''y'' = Some 0 \<and> layers archives_xy ''y'' = Some 0"
proof -
  have "for_loop over_capacity (evict_l_body busy []) (layers_xy, (\<lambda>_. 0), []) =
      Some (Return (layers_xy, (\<lambda>_. 0)(''y'' := 4), [''Y'', ''Y'', ''Y'', ''Y'']))"
    by (simp add: for_loop.simps over_capacity_xy evict_l_body_busy bump_def Let_def Log_busy
        eval_nat_numeral)
  moreover
  have "for_loop over_capacity (\<lambda>x. Some (evict_a_body busy x)) (archives_xy, (\<lambda>_. 0), []) =
      Some (Return (archives_xy, (\<lambda>_. 0)(''y'' := 4), [''Y'', ''Y'', ''Y'', ''Y'']))"
    by (simp add: for_loop.simps over_capacity_xy evict_a_body_busy bump_def Let_def Log_busy
        eval_nat_numeral)
  ultimately show ?thesis
    by (simp add: evict_l_def evict_a_def leave_evict_def Len_def)
       (simp add: layers_xy_def archives_xy_def)
qed

text \<open>
  layer-LRU's inner loop never ends on a release error that does not say
  \<open>layer not retained\<close>, and so neither does the round that runs it.
\<close>

lemma release_loop_never_ends:
  assumes "\<not> mentions msg ''layer not retained''"
  shows "for_loop release_pending (\<lambda>y. Some (release_round svc e ch y)) (Some msg, c, w) = None"
  by (rule for_loop_diverges [where I = "\<lambda>x. fst x = Some msg"])
     (auto simp: release_pending_def release_round_def assms)

lemma evict_l_round_release_error:
  assumes "Back (evictList_l c) = Some e"
    and "layer_cl (val (evictList_l c) e) = Some h"
    and "deleteImages_l svc current (images_cl (val (evictList_l c) e))
           (Log svc Info ''Eviciting %s, %d/%d (%.3f)'' w) = (Clear, w2)"
    and "ReleaseReadOnlyLayer svc (Some h) (os_cl (val (evictList_l c) e)) w2 = ((released, Some msg), w3)"
    and "\<not> mentions msg ''layer not retained''"
  shows "evict_l_body svc current (c, cb, w) = None"
  using assms by (simp add: evict_l_body_def Let_def release_loop_never_ends)

lemma mentions_driver_failed:
  "\<not> mentions ''driver failed to remove layer'' ''layer not retained''"
  by (simp add: mentions_def ToLower_def lower_char_def)

lemma release_loop_spins:
  "for_loop release_pending (\<lambda>y. Some (release_round svc e ch y))
     (Some ''driver failed to remove layer'', c, w) = None"
  by (rule for_loop_diverges [where I = "\<lambda>x. fst x = Some ''driver failed to remove layer''"])
     (auto simp: release_pending_def release_round_def mentions_driver_failed)

lemma evict_l_body_broken: "evict_l_body broken [] (layers_y, cb, ()) = None"
  by (simp add: evict_l_body_def layers_y_def Back_def layer_rec_def Let_def broken_def plain_def
      release_loop_spins)

text \<open>
  C3, where the code departs from the claim: the release of the back candidate fails
  with an error that does not say \<open>layer not retained\<close>. layer-LRU's eviction does not
  abort: its inner loop has no exit for that error and never ends, so the eviction
  never returns. archive-LRU's eviction, from the same state, returns at once.
\<close>

theorem release_error_never_returns:
  "evict_l broken [] (layers_y, ()) = None \<and>
   evict_a broken (archives_y, ()) = Some (Ok (archives_y, ()))"
proof -
  have "over_capacity (layers_y, (\<lambda>_. 0), ())"
    by (simp add: over_capacity_def layers_y_def)
  then have "for_loop over_capacity (evict_l_body broken []) (layers_y, (\<lambda>_. 0), ()) = None"
    by (subst for_loop.simps) (simp add: evict_l_body_broken)
  moreover
  have "evict_a_body broken (archives_y, (\<lambda>_. 0), ()) = Return (archives_y, (\<lambda>_. 0), ())"
    by (simp add: evict_a_body_def archives_y_def Back_def archive_rec_def Let_def broken_def
        plain_def)
  moreover have "over_capacity (archives_y, (\<lambda>_. 0), ())"
    by (simp add: over_capacity_def archives_y_def)
  ultimately show ?thesis
    by (simp add: evict_l_def evict_a_def leave_evict_def Len_def for_loop.simps)
       (simp add: layers_y_def archives_y_def)
qed

section \<open>The index and the list\<close>

lemmas put_again_defs =
  PutImage_l_def PutImage_a_def checkImageSize_def getImageSize_def Let_def chainIDsOf_def
  putLayer_l_def putLayer_a_def putLayer_l_body_def putLayer_a_body_def deferred_def
  evict_l_def evict_a_def Remove_def Len_def flaky_def plain_def imageA_def

text \<open>
  C7, where the code departs from the claim: image A is put again while its layer a is
  resident, and the fetch of the layer inside \<^verbatim>\<open>putLayer\<close> fails. \<^verbatim>\<open>putLayer\<close> has
  by then taken the old node off the list and its size off the level, and it returns
  without touching the index: chain a is still mapped, to element 0, and the list is
  empty.
\<close>

theorem failed_refetch_leaves_key_without_node:
  "PutImage_l flaky (Some imageA) (layers_a, 0) =
     Some (Ok (layers_a\<lparr>level := 0, evictList_l := (evictList_l layers_a)\<lparr>cells := []\<rparr>\<rparr>, 2)) \<and>
   PutImage_a flaky (Some imageA) (archives_a, 0) =
     Some (Ok (archives_a\<lparr>level := 0, evictList_l := (evictList_l archives_a)\<lparr>cells := []\<rparr>\<rparr>, 2)) \<and>
   layers layers_a ''a'' = Some 0 \<and> layers archives_a ''a'' = Some 0"
  by (simp add: put_again_defs layers_a_def archives_a_def layer_rec_def archive_rec_def)

section \<open>Removing an image from the layer engines\<close>

lemma removeReleased_effect:
  "removeReleased svc rel (c, w) = (c', w') \<Longrightarrow>
     val (evictList_l c') = val (evictList_l c) \<and>
     images_l c' = images_l c \<and> capacity c' = capacity c \<and>
     layers c' = (\<lambda>ch. if ch \<in> ChainID ` set rel then None else layers c ch) \<and>
     cells (evictList_l c') =
       filter (\<lambda>e. \<forall>l \<in> set rel. layers c (ChainID l) \<noteq> Some e) (cells (evictList_l c))"
proof (induction rel arbitrary: c w)
  case Nil
  then show ?case by auto
next
  case (Cons l rel)
  show ?case
  proof (cases "layers c (ChainID l)")
    case None
    with Cons.prems have "removeReleased svc rel (c, Log svc Warn ''Layer %s is not in cache'' w) = (c', w')"
      by simp
    from Cons.IH [OF this] None show ?thesis
      by (auto intro!: filter_cong)
  next
    case (Some e)
    let ?c1 = "c\<lparr>level := level c - DiffSize l, layers := (layers c)(ChainID l := None),
                  evictList_l := Remove e (evictList_l c)\<rparr>"
    from Cons.prems Some obtain w1 where "removeReleased svc rel (?c1, w1) = (c', w')"
      by (auto simp: Let_def split: prod.splits option.splits)
    from Cons.IH [OF this] Some show ?thesis
      by (auto simp: Remove_def removeAll_filter_not_eq intro!: filter_cong)
  qed
qed

lemma removeLayer_keeps:
  "removeLayer svc chainID (c, w) = (c', w') \<Longrightarrow>
     val (evictList_l c') = val (evictList_l c) \<and> images_l c' = images_l c \<and>
     capacity c' = capacity c \<and> layers c' \<subseteq>\<^sub>m layers c \<and>
     (\<exists>P. cells (evictList_l c') = filter P (cells (evictList_l c)))"
proof (cases "layers c chainID")
  case None
  assume "removeLayer svc chainID (c, w) = (c', w')"
  with None have "c' = c" by (simp add: removeLayer_def)
  then show ?thesis by (auto intro: exI [where x = "\<lambda>_. True"])
next
  case (Some e)
  assume r: "removeLayer svc chainID (c, w) = (c', w')"
  obtain released err w1 where rel:
    "ReleaseReadOnlyLayer svc (layer_cl (val (evictList_l c) e)) (os_cl (val (evictList_l c) e)) w
       = ((released, err), w1)"
    by (metis prod.exhaust)
  show ?thesis
  proof (cases err)
    case None
    with r Some rel have "removeReleased svc released (c, w1) = (c', w')"
      by (simp add: removeLayer_def Let_def)
    from removeReleased_effect [OF this] show ?thesis
      by (auto simp: map_le_def)
  next
    case (Some msg)
    with r \<open>layers c chainID = Some e\<close> rel have "c' = c"
      by (simp add: removeLayer_def Let_def)
    then show ?thesis by (auto intro: exI [where x = "\<lambda>_. True"])
  qed
qed

lemma removeLayers_keeps:
  "removeLayers svc done ds (c, w) = (c', w') \<Longrightarrow>
     val (evictList_l c') = val (evictList_l c) \<and> images_l c' = images_l c \<and>
     capacity c' = capacity c \<and> layers c' \<subseteq>\<^sub>m layers c \<and>
     (\<exists>P. cells (evictList_l c') = filter P (cells (evictList_l c)))"
proof (induction ds arbitrary: "done" c w)
  case Nil
  then show ?case by (auto intro: exI [where x = "\<lambda>_. True"])
next
  case (Cons d ds)
  obtain c1 w1 where s: "removeLayer svc (CreateChainID svc (done @ [d])) (c, w) = (c1, w1)"
    by (metis prod.exhaust)
  with Cons.prems have "removeLayers svc (done @ [d]) ds (c1, w1) = (c', w')" by simp
  from Cons.IH [OF this] removeLayer_keeps [OF s] show ?case
    by (auto intro: map_le_trans)
qed

text \<open>
  C8, as the spec states it, fails: layer a is shared by the images A and B, and
  \<^verbatim>\<open>RemoveImage\<close> of A leaves the layer's record as it was, A still in its list of
  images.
\<close>

theorem removed_image_stays_in_layer_record:
  "RemoveImage_l plain ''A'' (layers_shared, ()) =
     Ok (layers_shared\<lparr>images_l := [''B'' \<mapsto> imageA\<lparr>ID := ''B''\<rparr>]\<rparr>, ()) \<and>
   images_cl (val (evictList_l layers_shared) 0) = [''A'', ''B'']"
  by (simp add: RemoveImage_l_def removeLayer_def Let_def layers_shared_def plain_def imageA_def
      layer_rec_def fun_upd_twist)

text \<open>
  C8, amended: \<^verbatim>\<open>RemoveImage\<close> (the same text in both layer engines) takes the image out
  of the images table and touches no layer record, so every record's list of images is as
  before; the index and the list only lose entries. Which entries is decided by the layer
  store alone: a \<^verbatim>\<open>removeLayer\<close> of a resident chain whose release succeeds drops from
  the index exactly the chain IDs the release reports, and from the list the elements
  those chain IDs were mapped to.
\<close>

theorem RemoveImage_l_effect:
  "(RemoveImage_l svc imgID (c, w) = Ok (c', w') \<longrightarrow>
      val (evictList_l c') = val (evictList_l c) \<and>
      images_l c' = (images_l c)(imgID := None) \<and>
      layers c' \<subseteq>\<^sub>m layers c \<and>
      (\<exists>P. cells (evictList_l c') = filter P (cells (evictList_l c)))) \<and>
   (layers c chainID = Some e \<and>
    ReleaseReadOnlyLayer svc (layer_cl (val (evictList_l c) e)) (os_cl (val (evictList_l c) e)) w
      = ((released, None), w1) \<and>
    removeLayer svc chainID (c, w) = (c'', w'') \<longrightarrow>
      layers c'' = (\<lambda>ch. if ch \<in> ChainID ` set released then None else layers c ch) \<and>
      cells (evictList_l c'') =
        filter (\<lambda>x. \<forall>l \<in> set released. layers c (ChainID l) \<noteq> Some x) (cells (evictList_l c)))"
proof -
  have whole: "val (evictList_l c') = val (evictList_l c) \<and>
      images_l c' = (images_l c)(imgID := None) \<and>
      layers c' \<subseteq>\<^sub>m layers c \<and>
      (\<exists>P. cells (evictList_l c') = filter P (cells (evictList_l c)))"
    if r: "RemoveImage_l svc imgID (c, w) = Ok (c', w')"
  proof (cases "images_l c imgID")
    case None
    with r have "c' = c" by (simp add: RemoveImage_l_def)
    with None show ?thesis by (auto intro: exI [where x = "\<lambda>_. True"])
  next
    case (Some img)
    with r obtain ds where "RootFS img = Some ds"
      and "removeLayers svc [] ds (c\<lparr>images_l := (images_l c)(imgID := None)\<rparr>, w) = (c', w')"
      by (auto simp: RemoveImage_l_def split: option.splits)
    from removeLayers_keeps [OF this(2)] show ?thesis by simp
  qed
  have step: "layers c'' = (\<lambda>ch. if ch \<in> ChainID ` set released then None else layers c ch) \<and>
      cells (evictList_l c'') =
        filter (\<lambda>x. \<forall>l \<in> set released. layers c (ChainID l) \<noteq> Some x) (cells (evictList_l c))"
    if a: "layers c chainID = Some e \<and>
      ReleaseReadOnlyLayer svc (layer_cl (val (evictList_l c) e)) (os_cl (val (evictList_l c) e)) w
        = ((released, None), w1) \<and>
      removeLayer svc chainID (c, w) = (c'', w'')"
  proof -
    from a have "removeReleased svc released (c, w1) = (c'', w'')"
      by (clarsimp simp: removeLayer_def Let_def)
    from removeReleased_effect [OF this] show ?thesis by simp
  qed
  from whole step show ?thesis by blast
qed

theorem RemoveImage_l_effect_witness:
  "RemoveImage_l freeing ''A'' (layers_a, ()) =
     Ok (layers_a\<lparr>level := 0, images_l := Map.empty, layers := Map.empty,
                  evictList_l := (evictList_l layers_a)\<lparr>cells := []\<rparr>\<rparr>, ()) \<and>
   layers layers_a ''a'' = Some 0 \<and>
   ReleaseReadOnlyLayer freeing (layer_cl (val (evictList_l layers_a) 0))
     (os_cl (val (evictList_l layers_a) 0)) ()
     = (([\<lparr>ChainID = ''a'', DiffID = ''a'', DiffSize = 10\<rparr>], None), ()) \<and>
   layers (fst (removeLayer freeing ''a'' (layers_a, ()))) = Map.empty \<and>
   cells (evictList_l (fst (removeLayer freeing ''a'' (layers_a, ())))) = []"
proof -
  let ?c = "layers_a\<lparr>level := 0, images_l := Map.empty, layers := Map.empty,
                     evictList_l := (evictList_l layers_a)\<lparr>cells := []\<rparr>\<rparr>"
  let ?meta = "\<lparr>ChainID = ''a'', DiffID = ''a'', DiffSize = 10\<rparr>"
  have run: "RemoveImage_l freeing ''A'' (layers_a, ()) = Ok (?c, ())"
    by (simp add: RemoveImage_l_def removeLayer_def deleteArchive_def Let_def Remove_def
        layers_a_def freeing_def plain_def imageA_def layer_rec_def)
  have res: "layers layers_a ''a'' = Some 0"
    by (simp add: layers_a_def)
  have rel: "ReleaseReadOnlyLayer freeing (layer_cl (val (evictList_l layers_a) 0))
      (os_cl (val (evictList_l layers_a) 0)) () = (([?meta], None), ())"
    by (simp add: freeing_def plain_def)
  have step: "removeLayer freeing ''a'' (layers_a, ()) =
      (fst (removeLayer freeing ''a'' (layers_a, ())), ())"
    by (cases "removeLayer freeing ''a'' (layers_a, ())") simp
  from RemoveImage_l_effect [where svc = freeing and imgID = "''A''" and c = layers_a and w = "()"
      and c' = ?c and w' = "()" and chainID = "''a''" and e = 0 and released = "[?meta]"
      and ?w1.0 = "()" and c'' = "fst (removeLayer freeing ''a'' (layers_a, ()))" and w'' = "()"]
    run res rel step
  show ?thesis
    by (simp add: layers_a_def fun_eq_iff)
qed

section \<open>An archive larger than its layer\<close>

text \<open>
  C6, as the spec states it, fails: the archive of layer a has 50 bytes, the layer 10.
  Putting the image removes the archive file (the world lists its path) and stores the
  record with a compact size of 50, not 0.
\<close>

theorem oversized_archive_compact_size_stays:
  "PutImage_a bloated (Some imageA) (newArchiveLRUCache 100, []) =
     Some (Ok (\<lparr>capacity = 100, level = 10, images_l = [''A'' \<mapsto> imageA], layers = [''a'' \<mapsto> 0],
                 evictList_l =
                   \<lparr>cells = [0],
                    val = (\<lambda>_. \<lparr>layer_cl = None, size_cl = 0, images_cl = [], os_cl = [], compactSize = 0\<rparr>)
                            (0 := \<lparr>layer_cl = Some ''a'', size_cl = 10, images_cl = [''A''],
                                   os_cl = ''linux'', compactSize = 50\<rparr>),
                    fresh = 1\<rparr>\<rparr>, [''a'']))"
  by (simp add: PutImage_a_def checkImageSize_def getImageSize_def Let_def chainIDsOf_def
      putLayer_a_def putLayer_a_body_def deferred_def evict_a_def Len_def PushFront_def
      getLayerArchiveInfo_def deleteArchive_def leave_evict_def for_loop.simps over_capacity_def
      bloated_def plain_def imageA_def newArchiveLRUCache_def list_New_def)

text \<open>
  C6, amended: when archive-LRU admits a layer whose archive file is larger than the
  layer's diff size, \<^verbatim>\<open>putLayer\<close> calls \<^verbatim>\<open>os.RemoveAll\<close> on the archive's path (a
  failure is only logged) and stores the layer's record with the compact size the file
  had.
\<close>

theorem oversized_archive:
  assumes get: "GetReadOnlyLayer svc chainID (OperatingSystem img) w = ((Some h, None), w1)"
    and sz: "layerDiffSize svc h w1 = (sz, None)"
    and st: "Stat svc (layerDiffID svc h) w1 = (Some fsz, None)"
    and big: "sz <s fsz"
  shows "\<exists>c' w4 e.
           putLayer_a_body svc chainID img (c, w) =
             ((c', Log svc Info ''Put layer %s, %d/%d (%.3f)'' w4), False) \<and>
           layers c' chainID = Some e \<and>
           val (evictList_l c') e =
             \<lparr>layer_cl = Some h, size_cl = sz, images_cl = [ID img],
              os_cl = OperatingSystem img, compactSize = fsz\<rparr> \<and>
           (let gone = RemoveAll svc (layerDiffID svc h)
                         (Log svc Info ''Layer %s, full size: %d, compact size: %d'' w1)
            in w4 = snd gone \<or>
               w4 = Log svc Error ''error deleting layer archive: %v'' (snd gone))"
  using assms
  by (auto simp: putLayer_a_body_def getLayerArchiveInfo_def deleteArchive_def PushFront_def Let_def
      split: option.splits prod.splits oserror.splits)

theorem oversized_archive_witness:
  "GetReadOnlyLayer bloated ''a'' (OperatingSystem imageA) [] = ((Some ''a'', None), []) \<and>
   layerDiffSize bloated ''a'' [] = (10, None) \<and>
   Stat bloated (layerDiffID bloated ''a'') [] = (Some 50, None) \<and>
   (10 :: int64) <s 50 \<and>
   (\<exists>c' e. putLayer_a_body bloated ''a'' imageA (newArchiveLRUCache 100, []) = ((c', [''a'']), False) \<and>
      layers c' ''a'' = Some e \<and>
      size_cl (val (evictList_l c') e) = 10 \<and> compactSize (val (evictList_l c') e) = 50)"
proof -
  have get: "GetReadOnlyLayer bloated ''a'' (OperatingSystem imageA) [] = ((Some ''a'', None), [])"
    by (simp add: bloated_def plain_def)
  have sz: "layerDiffSize bloated ''a'' [] = (10, None)"
    by (simp add: bloated_def plain_def)
  have st: "Stat bloated (layerDiffID bloated ''a'') [] = (Some 50, None)"
    by (simp add: bloated_def plain_def)
  have big: "(10 :: int64) <s 50"
    by simp
  from oversized_archive [OF get sz st big, of "newArchiveLRUCache 100"]
  obtain c' w4 e where
    "putLayer_a_body bloated ''a'' imageA (newArchiveLRUCache 100, []) =
       ((c', Log bloated Info ''Put layer %s, %d/%d (%.3f)'' w4), False)"
    "layers c' ''a'' = Some e"
    "val (evictList_l c') e =
       \<lparr>layer_cl = Some ''a'', size_cl = 10, images_cl = [ID imageA],
        os_cl = OperatingSystem imageA, compactSize = 50\<rparr>"
    "w4 = [''a'']"
    by (auto simp: bloated_def plain_def Let_def)
  then have "putLayer_a_body bloated ''a'' imageA (newArchiveLRUCache 100, []) = ((c', [''a'']), False) \<and>
      layers c' ''a'' = Some e \<and>
      size_cl (val (evictList_l c') e) = 10 \<and> compactSize (val (evictList_l c') e) = 50"
    by (simp add: bloated_def plain_def)
  with get sz st big show ?thesis by blast
qed

section \<open>Updating an image in the layer engines\<close>

lemma evict_l_idle:
  "\<not> capacity c <s level c \<Longrightarrow> \<exists>w'. evict_l svc cur (c, w) = Some (Ok (c, w'))"
  by (simp add: evict_l_def leave_evict_def for_loop.simps over_capacity_def)

lemma evict_a_idle:
  "\<not> capacity c <s level c \<Longrightarrow> \<exists>w'. evict_a svc (c, w) = Some (Ok (c, w'))"
  by (simp add: evict_a_def leave_evict_def for_loop.simps over_capacity_def)

lemma appended_refl: "appended i [] c c"
  by (simp add: appended_def)

lemma appended_step:
  assumes "appended i [ch] c c1" and "appended i chs c1 c2"
  shows "appended i (ch # chs) c c2"
  using assms by (auto simp: appended_def)

lemma appended_updateLayer_body:
  "appended (ID img) [ch] c (fst (updateLayer_body svc ch img (c, w)))"
  by (auto simp: appended_def updateLayer_body_def MoveToFront_def Let_def split: option.splits)

lemma each_chain_update:
  assumes ev: "\<And>c w. \<not> capacity c <s level c \<Longrightarrow> \<exists>w'. ev (c, w) = Some (Ok (c, w'))"
    and idle: "\<not> capacity c <s level c"
  shows "\<exists>c' w'. each_chain (\<lambda>ch cw. deferred ev (updateLayer_body svc ch img cw, False)) chs (c, w)
           = Some (Ok (c', w')) \<and> appended (ID img) chs c c'"
  using idle
proof (induction chs arbitrary: c w)
  case Nil
  then show ?case by (simp add: appended_refl)
next
  case (Cons ch chs)
  obtain c1 w1 where b: "updateLayer_body svc ch img (c, w) = (c1, w1)"
    by (metis prod.exhaust)
  have a1: "appended (ID img) [ch] c c1"
    using appended_updateLayer_body [of img ch c svc w] b by simp
  then have idle1: "\<not> capacity c1 <s level c1"
    using Cons.prems by (simp add: appended_def)
  from ev [OF idle1] obtain w2 where e: "ev (c1, w1) = Some (Ok (c1, w2))" by blast
  from Cons.IH [OF idle1, of w2] obtain c' w' where
    r: "each_chain (\<lambda>ch cw. deferred ev (updateLayer_body svc ch img cw, False)) chs (c1, w2)
          = Some (Ok (c', w'))" and a2: "appended (ID img) chs c1 c'"
    by blast
  from b e r have "each_chain (\<lambda>ch cw. deferred ev (updateLayer_body svc ch img cw, False)) (ch # chs) (c, w)
      = Some (Ok (c', w'))"
    by (simp add: deferred_def)
  with appended_step [OF a1 a2] show ?case by blast
qed

lemma appended_many:
  assumes "appended i chs c c1"
    and "images_cl (val (evictList_l c2) e) = images_cl (val (evictList_l c1) e) @ replicate k i"
  shows "images_cl (val (evictList_l c2) e) = images_cl (val (evictList_l c) e) @
      replicate (length (filter (\<lambda>ch. layers c ch = Some e) chs) + k) i"
  using assms by (simp add: appended_def replicate_add)

lemma UpdateImage_l_once:
  assumes get: "\<forall>w. fst (GetImage svc refOrID w) = (Some img, None)"
    and root: "RootFS img = Some ds"
    and idle: "\<not> capacity c <s level c"
  shows "\<exists>c' w'. UpdateImage_l svc refOrID (c, w) = Some (Ok (c', w')) \<and>
           appended (ID img) (chainIDsOf svc ds) c c'"
proof -
  obtain w1 where g: "GetImage svc refOrID w = ((Some img, None), w1)"
    using get by (metis prod.collapse)
  from each_chain_update [where ev = "evict_l svc []" and c = c, OF evict_l_idle idle,
      of svc img "chainIDsOf svc ds" w1]
  show ?thesis
    using g root by (simp add: UpdateImage_l_def updateLayer_l_def [abs_def])
qed

lemma UpdateImage_a_once:
  assumes get: "\<forall>w. fst (GetImage svc refOrID w) = (Some img, None)"
    and root: "RootFS img = Some ds"
    and idle: "\<not> capacity c <s level c"
  shows "\<exists>c' w'. UpdateImage_a svc refOrID (c, w) = Some (Ok (c', w')) \<and>
           appended (ID img) (chainIDsOf svc ds) c c'"
proof -
  obtain w1 where g: "GetImage svc refOrID w = ((Some img, None), w1)"
    using get by (metis prod.collapse)
  from each_chain_update [where ev = "evict_a svc" and c = c, OF evict_a_idle idle,
      of svc img "chainIDsOf svc ds" w1]
  show ?thesis
    using g root by (simp add: UpdateImage_a_def updateLayer_a_def [abs_def])
qed

lemma repeat_appended:
  assumes once: "\<And>c w. \<not> capacity c <s level c \<Longrightarrow>
      \<exists>c' w'. f (c, w) = Some (Ok (c', w')) \<and> appended i chs c c'"
    and idle: "\<not> capacity c <s level c"
  shows "\<exists>c' w'. repeat n f (c, w) = Some (Ok (c', w')) \<and> layers c' = layers c \<and>
           (\<forall>e. images_cl (val (evictList_l c') e) =
              images_cl (val (evictList_l c) e) @
                replicate (n * length (filter (\<lambda>ch. layers c ch = Some e) chs)) i)"
  using idle
proof (induction n arbitrary: c w)
  case 0
  then show ?case by simp
next
  case (Suc n)
  from once [OF Suc.prems, of w] obtain c1 w1 where
    f: "f (c, w) = Some (Ok (c1, w1))" and a: "appended i chs c c1" by blast
  then have idle1: "\<not> capacity c1 <s level c1"
    using Suc.prems by (simp add: appended_def)
  from Suc.IH [OF idle1, of w1] obtain c' w' where
    r: "repeat n f (c1, w1) = Some (Ok (c', w'))" and l: "layers c' = layers c1"
    and i: "\<forall>e. images_cl (val (evictList_l c') e) =
              images_cl (val (evictList_l c1) e) @
                replicate (n * length (filter (\<lambda>ch. layers c1 ch = Some e) chs)) i"
    by blast
  from f r have "repeat (Suc n) f (c, w) = Some (Ok (c', w'))" by simp
  moreover from a l have "layers c' = layers c" by (simp add: appended_def)
  moreover from a i have "\<forall>e. images_cl (val (evictList_l c') e) =
              images_cl (val (evictList_l c) e) @
                replicate (Suc n * length (filter (\<lambda>ch. layers c ch = Some e) chs)) i"
    by (simp add: appended_def replicate_add)
  ultimately show ?case by blast
qed

lemma one_chain:
  assumes "chainID \<in> set chs" and "distinct chs"
    and "\<forall>ch \<in> set chs. layers c ch = Some e \<longrightarrow> ch = chainID"
    and "layers c chainID = Some e"
  shows "length (filter (\<lambda>ch. layers c ch = Some e) chs) = 1"
proof -
  from assms(1,3,4) have "{ch. layers c ch = Some e} \<inter> set chs = {chainID}"
    by blast
  with distinct_length_filter [OF assms(2), of "\<lambda>ch. layers c ch = Some e"]
  show ?thesis by simp
qed

lemma deleteImages_l_all:
  assumes "\<forall>i \<in> set imgs. i \<noteq> current \<and> (\<forall>w. passes (fst (ImageDelete svc i False False w)))"
  shows "deleteImages_l svc current imgs w =
           (Clear, foldl (\<lambda>w i. snd (ImageDelete svc i False False w)) w imgs)"
  using assms
proof (induction imgs arbitrary: w)
  case Nil
  then show ?case by simp
next
  case (Cons i imgs)
  then have p: "passes (fst (ImageDelete svc i False False w))" and ne: "i \<noteq> current" by auto
  obtain err w1 where d: "ImageDelete svc i False False w = (err, w1)" by (metis prod.exhaust)
  from Cons have "deleteImages_l svc current imgs w1 =
           (Clear, foldl (\<lambda>w i. snd (ImageDelete svc i False False w)) w1 imgs)" by simp
  with p ne d show ?case
    by (cases err) (simp_all add: passes_def)
qed

lemma deleteImages_a_all:
  assumes "\<forall>i \<in> set imgs. \<forall>w. passes (fst (ImageDelete svc i False False w))"
  shows "deleteImages_a svc imgs w =
           (Clear, foldl (\<lambda>w i. snd (ImageDelete svc i False False w)) w imgs)"
  using assms
proof (induction imgs arbitrary: w)
  case Nil
  then show ?case by simp
next
  case (Cons i imgs)
  then have p: "passes (fst (ImageDelete svc i False False w))" by auto
  obtain err w1 where d: "ImageDelete svc i False False w = (err, w1)" by (metis prod.exhaust)
  from Cons have "deleteImages_a svc imgs w1 =
           (Clear, foldl (\<lambda>w i. snd (ImageDelete svc i False False w)) w1 imgs)" by simp
  with p d show ?case
    by (cases err) (simp_all add: passes_def)
qed

text \<open>
  C10: while the cache is within its capacity, \<open>n\<close> calls of \<^verbatim>\<open>UpdateImage\<close> for an
  image append its ID \<open>n\<close> times to the images list of each resident layer of its
  chain, whatever the list holds already (one occurrence after \<^verbatim>\<open>PutImage\<close>, so
  \<open>n + 1\<close> after the calls), in layer-LRU and in archive-LRU; and the loop over a
  candidate's images in \<^verbatim>\<open>evict\<close> calls \<^verbatim>\<open>ImageDelete\<close> once for each element of that
  list, in order, as long as no answer is a conflict or an unclassified error.
\<close>

theorem UpdateImage_appends_every_time:
  assumes get: "\<forall>w. fst (GetImage svc refOrID w) = (Some img, None)"
    and root: "RootFS img = Some ds"
    and chain: "chainID \<in> set (chainIDsOf svc ds)" "distinct (chainIDsOf svc ds)"
  shows "(\<not> capacity c <s level c \<and> layers c chainID = Some e \<and>
          (\<forall>ch \<in> set (chainIDsOf svc ds). layers c ch = Some e \<longrightarrow> ch = chainID) \<longrightarrow>
            (\<exists>c' w'. repeat n (UpdateImage_l svc refOrID) (c, w) = Some (Ok (c', w')) \<and>
               layers c' chainID = Some e \<and>
               images_cl (val (evictList_l c') e) =
                 images_cl (val (evictList_l c) e) @ replicate n (ID img))) \<and>
         (\<not> capacity a <s level a \<and> layers a chainID = Some e \<and>
          (\<forall>ch \<in> set (chainIDsOf svc ds). layers a ch = Some e \<longrightarrow> ch = chainID) \<longrightarrow>
            (\<exists>a' w'. repeat n (UpdateImage_a svc refOrID) (a, w) = Some (Ok (a', w')) \<and>
               layers a' chainID = Some e \<and>
               images_cl (val (evictList_l a') e) =
                 images_cl (val (evictList_l a) e) @ replicate n (ID img))) \<and>
         ((\<forall>i \<in> set imgs. i \<noteq> current \<and> (\<forall>w. passes (fst (ImageDelete svc i False False w)))) \<longrightarrow>
            deleteImages_l svc current imgs w =
              (Clear, foldl (\<lambda>w i. snd (ImageDelete svc i False False w)) w imgs) \<and>
            deleteImages_a svc imgs w =
              (Clear, foldl (\<lambda>w i. snd (ImageDelete svc i False False w)) w imgs))"
proof -
  have l: "\<exists>c' w'. repeat n (UpdateImage_l svc refOrID) (c, w) = Some (Ok (c', w')) \<and>
               layers c' chainID = Some e \<and>
               images_cl (val (evictList_l c') e) =
                 images_cl (val (evictList_l c) e) @ replicate n (ID img)"
    if idle: "\<not> capacity c <s level c" and res: "layers c chainID = Some e"
      and one: "\<forall>ch \<in> set (chainIDsOf svc ds). layers c ch = Some e \<longrightarrow> ch = chainID"
  proof -
    from repeat_appended [where f = "UpdateImage_l svc refOrID" and i = "ID img"
        and chs = "chainIDsOf svc ds" and c = c and n = n and w = w,
        OF UpdateImage_l_once [OF get root] idle]
    obtain c' w' where r: "repeat n (UpdateImage_l svc refOrID) (c, w) = Some (Ok (c', w'))"
      and ly: "layers c' = layers c"
      and im: "\<forall>e. images_cl (val (evictList_l c') e) =
              images_cl (val (evictList_l c) e) @
                replicate (n * length (filter (\<lambda>ch. layers c ch = Some e) (chainIDsOf svc ds))) (ID img)"
      by blast
    from one_chain [OF chain one res] im
    have "images_cl (val (evictList_l c') e) = images_cl (val (evictList_l c) e) @ replicate n (ID img)"
      by simp
    with r ly res show ?thesis by auto
  qed
  have a: "\<exists>a' w'. repeat n (UpdateImage_a svc refOrID) (a, w) = Some (Ok (a', w')) \<and>
               layers a' chainID = Some e \<and>
               images_cl (val (evictList_l a') e) =
                 images_cl (val (evictList_l a) e) @ replicate n (ID img)"
    if idle: "\<not> capacity a <s level a" and res: "layers a chainID = Some e"
      and one: "\<forall>ch \<in> set (chainIDsOf svc ds). layers a ch = Some e \<longrightarrow> ch = chainID"
  proof -
    from repeat_appended [where f = "UpdateImage_a svc refOrID" and i = "ID img"
        and chs = "chainIDsOf svc ds" and c = a and n = n and w = w,
        OF UpdateImage_a_once [OF get root] idle]
    obtain a' w' where r: "repeat n (UpdateImage_a svc refOrID) (a, w) = Some (Ok (a', w'))"
      and ly: "layers a' = layers a"
      and im: "\<forall>e. images_cl (val (evictList_l a') e) =
              images_cl (val (evictList_l a) e) @
                replicate (n * length (filter (\<lambda>ch. layers a ch = Some e) (chainIDsOf svc ds))) (ID img)"
      by blast
    from one_chain [OF chain one res] im
    have "images_cl (val (evictList_l a') e) = images_cl (val (evictList_l a) e) @ replicate n (ID img)"
      by simp
    with r ly res show ?thesis by auto
  qed
  have d: "deleteImages_l svc current imgs w =
              (Clear, foldl (\<lambda>w i. snd (ImageDelete svc i False False w)) w imgs) \<and>
            deleteImages_a svc imgs w =
              (Clear, foldl (\<lambda>w i. snd (ImageDelete svc i False False w)) w imgs)"
    if "\<forall>i \<in> set imgs. i \<noteq> current \<and> (\<forall>w. passes (fst (ImageDelete svc i False False w)))"
    using that deleteImages_l_all [of imgs current svc w] deleteImages_a_all [of imgs svc w]
    by blast
  from l a d show ?thesis by blast
qed

lemma mentions_gone_A:
  "mentions ''No such image: A'' ''no such image'' \<and> \<not> mentions ''No such image: A'' ''conflict''"
  by (simp add: mentions_def ToLower_def lower_char_def)

lemma evict_l_thrice:
  "evict_l reclaiming [] (layers_ba_thrice, []) = Some (Ok (layers_b_left, [''A'', ''A'', ''A'']))"
  by (simp add: evict_l_def evict_l_body_def leave_evict_def for_loop.simps over_capacity_def
      release_pending_def release_round_def bump_def Let_def Back_def Len_def Remove_def
      reclaiming_def recording_def plain_def layers_ba_thrice_def layers_b_left_def layer_rec_def
      mentions_gone_A fun_eq_iff)

theorem UpdateImage_appends_every_time_witness:
  "(\<forall>w. fst (GetImage recording ''A'' w) = (Some imageA, None)) \<and>
   RootFS imageA = Some [''a''] \<and> chainIDsOf recording [''a''] = [''a''] \<and>
   \<not> capacity layers_a <s level layers_a \<and> layers layers_a ''a'' = Some 0 \<and>
   \<not> capacity archives_a <s level archives_a \<and> layers archives_a ''a'' = Some 0 \<and>
   (\<exists>c' w'. repeat 2 (UpdateImage_l recording ''A'') (layers_a, []) = Some (Ok (c', w')) \<and>
      layers c' ''a'' = Some 0 \<and> images_cl (val (evictList_l c') 0) = [''A'', ''A'', ''A'']) \<and>
   (\<exists>a' w'. repeat 2 (UpdateImage_a recording ''A'') (archives_a, []) = Some (Ok (a', w')) \<and>
      layers a' ''a'' = Some 0 \<and> images_cl (val (evictList_l a') 0) = [''A'', ''A'', ''A'']) \<and>
   deleteImages_l recording [] [''A'', ''A'', ''A''] [] = (Clear, [''A'', ''A'', ''A'']) \<and>
   deleteImages_a recording [''A'', ''A'', ''A''] [] = (Clear, [''A'', ''A'', ''A'']) \<and>
   evict_l reclaiming [] (layers_ba_thrice, []) = Some (Ok (layers_b_left, [''A'', ''A'', ''A'']))"
proof -
  have get: "\<forall>w. fst (GetImage recording ''A'' w) = (Some imageA, None)"
    by (simp add: recording_def plain_def)
  have root: "RootFS imageA = Some [''a'']"
    by (simp add: imageA_def)
  have chs: "chainIDsOf recording [''a''] = [''a'']"
    by (simp add: chainIDsOf_def recording_def plain_def)
  have chain: "''a'' \<in> set (chainIDsOf recording [''a''])" "distinct (chainIDsOf recording [''a''])"
    by (simp_all add: chs)
  have l: "\<not> capacity layers_a <s level layers_a" "layers layers_a ''a'' = Some 0"
    "\<forall>ch \<in> set (chainIDsOf recording [''a'']). layers layers_a ch = Some 0 \<longrightarrow> ch = ''a''"
    by (simp_all add: chs layers_a_def)
  have a: "\<not> capacity archives_a <s level archives_a" "layers archives_a ''a'' = Some 0"
    "\<forall>ch \<in> set (chainIDsOf recording [''a'']). layers archives_a ch = Some 0 \<longrightarrow> ch = ''a''"
    by (simp_all add: chs archives_a_def)
  have p: "\<forall>i \<in> set [''A'', ''A'', ''A'']. i \<noteq> [] \<and>
      (\<forall>w. passes (fst (ImageDelete recording i False False w)))"
    by (simp add: recording_def plain_def passes_def mentions_gone_A)
  have f: "foldl (\<lambda>w i. snd (ImageDelete recording i False False w)) [] [''A'', ''A'', ''A'']
      = [''A'', ''A'', ''A'']"
    by (simp add: recording_def plain_def)
  have before: "images_cl (val (evictList_l layers_a) 0) = [''A'']"
    "images_cl (val (evictList_l archives_a) 0) = [''A'']"
    by (simp_all add: layers_a_def archives_a_def layer_rec_def archive_rec_def)
  have two: "replicate 2 (ID imageA) = [''A'', ''A'']"
    by (simp add: imageA_def eval_nat_numeral)
  note T = UpdateImage_appends_every_time [OF get root chain, where c = layers_a and a = archives_a
      and e = 0 and n = 2 and w = "[]" and imgs = "[''A'', ''A'', ''A'']" and current = "[]"]
  have L: "\<exists>c' w'. repeat 2 (UpdateImage_l recording ''A'') (layers_a, []) = Some (Ok (c', w')) \<and>
          layers c' ''a'' = Some 0 \<and> images_cl (val (evictList_l c') 0) = [''A'', ''A'', ''A'']"
    using T [THEN conjunct1, THEN mp, OF conjI [OF l(1) conjI [OF l(2) l(3)]]]
    by (simp add: before two)
  have A: "\<exists>a' w'. repeat 2 (UpdateImage_a recording ''A'') (archives_a, []) = Some (Ok (a', w')) \<and>
          layers a' ''a'' = Some 0 \<and> images_cl (val (evictList_l a') 0) = [''A'', ''A'', ''A'']"
    using T [THEN conjunct2, THEN conjunct1, THEN mp, OF conjI [OF a(1) conjI [OF a(2) a(3)]]]
    by (simp add: before two)
  have D: "deleteImages_l recording [] [''A'', ''A'', ''A''] [] = (Clear, [''A'', ''A'', ''A'']) \<and>
        deleteImages_a recording [''A'', ''A'', ''A''] [] = (Clear, [''A'', ''A'', ''A''])"
    using T [THEN conjunct2, THEN conjunct2, THEN mp, OF p]
    by (simp only: f)
  from get root chs l(1,2) a(1,2) L A D [THEN conjunct1] D [THEN conjunct2] evict_l_thrice
  show ?thesis
    by - (intro conjI; assumption)
qed

section \<open>Putting the same image twice\<close>

lemmas put_twice_defs =
  PutImage_l_def checkImageSize_def getImageSize_def Let_def chainIDsOf_def
  putLayer_l_def putLayer_l_body_def deferred_def evict_l_def evict_l_body_def leave_evict_def
  for_loop.simps over_capacity_def release_pending_def release_round_def bump_def
  PushFront_def Remove_def MoveToFront_def Back_def Len_def
  counted_def plain_def imageA_def imageD_def layer_rec_def

text \<open>
  C9, as the spec states it, fails for layer-LRU: the first \<^verbatim>\<open>PutImage\<close> of A leaves
  layer d in the cache (its release drops one of two references) and the level at 30;
  the second \<^verbatim>\<open>PutImage\<close> of A builds A's record anew, evicts again, and this time the
  release of d reports it released: the cache holds A's layer alone, at level 20.
\<close>

theorem second_PutImage_evicts_more:
  "PutImage_l counted (Some imageA) (layers_d, 2) = Some (Ok (layers_da, 1)) \<and>
   PutImage_l counted (Some imageA) (layers_da, 1) = Some (Ok (layers_only_a, 0)) \<and>
   level layers_da = 30 \<and> cells (evictList_l layers_da) = [0, 1] \<and>
   level layers_only_a = 20 \<and> cells (evictList_l layers_only_a) = [2]"
proof -
  have "PutImage_l counted (Some imageA) (layers_d, 2) = Some (Ok (layers_da, 1))"
    by (simp add: put_twice_defs layers_d_def layers_da_def eval_nat_numeral)
  moreover have "PutImage_l counted (Some imageA) (layers_da, 1) = Some (Ok (layers_only_a, 0))"
    by (simp add: put_twice_defs layers_da_def layers_only_a_def eval_nat_numeral fun_eq_iff)
  ultimately show ?thesis
    by (simp add: layers_da_def layers_only_a_def)
qed

lemma MoveToFront_twice: "MoveToFront e (MoveToFront e l) = MoveToFront e l"
  by (simp add: MoveToFront_def)

lemma MoveToFront_front:
  "cells l = e # rest \<Longrightarrow> e \<notin> set rest \<Longrightarrow> MoveToFront e l = l"
  by (simp add: MoveToFront_def)

lemma evict_i_body_at_front:
  assumes "at_front i e c"
    and "evict_i_body svc (c, w) = Continue (c', w') \<or> evict_i_body svc (c, w) = Return (c', w')"
  shows "at_front i e c'"
proof (cases "Back (evictList_i c)")
  case None
  with assms(2) show ?thesis by (simp add: evict_i_body_def)
next
  case (Some eb)
  then have ne: "cells (evictList_i c) \<noteq> []" and eb: "eb = last (cells (evictList_i c))"
    by (auto simp: Back_def split: if_splits)
  let ?img = "val (evictList_i c) eb"
  let ?c2 = "c\<lparr>images_i := (images_i c)(ID ?img := None),
               evictList_i := Remove eb (evictList_i c)\<rparr>"
  from assms(2) Some have "c' = c \<or> (\<exists>sz. c' = ?c2\<lparr>level := level c - sz\<rparr>)"
    by (auto simp: evict_i_body_def Let_def split: result.splits prod.splits option.splits if_splits)
  moreover have "at_front i e (?c2\<lparr>level := lv\<rparr>)" for lv
  proof (cases "images_i c i")
    case None
    then show ?thesis by (simp add: at_front_def)
  next
    case (Some e')
    with assms(1) obtain rest where f: "e' = e" "ID (val (evictList_i c) e) = i"
      "cells (evictList_i c) = e # rest" "e \<notin> set rest"
      by (auto simp: at_front_def)
    show ?thesis
    proof (cases "eb = e")
      case True
      with f show ?thesis by (simp add: at_front_def)
    next
      case False
      with f Some show ?thesis by (auto simp: at_front_def Remove_def)
    qed
  qed
  ultimately show ?thesis using assms(1) by auto
qed

lemma evict_i_at_front:
  assumes run: "evict_i svc (c, w) = Some (Ok (c', w'))" and start: "at_front i e c"
  shows "at_front i e c'"
proof (cases "Len (evictList_i c) = 0")
  case True
  with run start show ?thesis by (simp add: evict_i_def)
next
  case False
  let ?body = "\<lambda>x. Some (evict_i_body svc x)"
  from False run obtain r where lp: "for_loop over_capacity_i ?body (c, w) = Some r"
    and r: "r = Continue (c', w') \<or> r = Return (c', w')"
    by (auto simp: evict_i_def returned_def split: option.splits ctl.splits)
  have init: "at_front i e (fst (c, w))"
    using start by simp
  have step: "at_front i e (fst y)"
    if "at_front i e (fst x)" and "over_capacity_i x" and "?body x = Some (Continue y)" for x y
  proof -
    from that(3) have "evict_i_body svc (fst x, snd x) = Continue (fst y, snd y)" by simp
    then show ?thesis by (rule evict_i_body_at_front [OF that(1) disjI1])
  qed
  have "(\<exists>y. r = Continue y \<and> at_front i e (fst y) \<and> \<not> over_capacity_i y) \<or>
        (\<exists>x y. r = Return y \<and> at_front i e (fst x) \<and> over_capacity_i x \<and>
           ?body x = Some (Return y)) \<or>
        (\<exists>x. r = Panicked \<and> at_front i e (fst x) \<and> over_capacity_i x \<and>
           ?body x = Some Panicked)"
    using lp init
    by (rule for_loop_invariant [where I = "\<lambda>x. at_front i e (fst x)"]) (blast intro: step)
  then consider (fell) y where "r = Continue y" "at_front i e (fst y)"
    | (ret) x y where "r = Return y" "at_front i e (fst x)" "?body x = Some (Return y)"
    | (pan) "r = Panicked"
    by blast
  then show ?thesis
  proof cases
    case fell
    with r show ?thesis by auto
  next
    case ret
    from ret(3) have "evict_i_body svc (fst x, snd x) = Return (fst y, snd y)" by simp
    then have "at_front i e (fst y)" by (rule evict_i_body_at_front [OF ret(2) disjI2])
    with r ret(1) show ?thesis by auto
  next
    case pan
    with r show ?thesis by auto
  qed
qed

lemma PutImage_i_resident:
  assumes res: "images_i c1 (ID img) = Some e" and same: "MoveToFront e (evictList_i c1) = evictList_i c1"
  shows "PutImage_i svc (Some img) (c1, w1) = Some Panic \<or>
         (\<exists>w2. PutImage_i svc (Some img) (c1, w1) = Some (Ok (c1, w2)))"
  using assms
  by (auto simp: PutImage_i_def split: result.splits option.splits prod.splits)

lemma PutImage_i_again:
  assumes ok: "fresh_ok (evictList_i c)"
    and chk: "checkImageSize svc (capacity c) img w = Ok (None, wa)"
    and run: "PutImage_i svc (Some img) (c, w) = Some (Ok (c1, w1))"
    and res: "images_i c1 (ID img) \<noteq> None"
  shows "PutImage_i svc (Some img) (c1, w1) = Some Panic \<or>
         (\<exists>w2. PutImage_i svc (Some img) (c1, w1) = Some (Ok (c1, w2)))"
proof (cases "images_i c (ID img)")
  case (Some e)
  with chk run have c1: "c1 = c\<lparr>evictList_i := MoveToFront e (evictList_i c)\<rparr>"
    by (simp add: PutImage_i_def)
  show ?thesis
    by (rule PutImage_i_resident [where e = e]) (simp_all add: c1 Some MoveToFront_twice)
next
  case None
  let ?e = "fresh (evictList_i c)"
  from chk run None res obtain newSize w2 where
    ev: "evict_i svc
           (c\<lparr>images_i := (images_i c)(ID img \<mapsto> ?e),
              evictList_i := snd (PushFront img (evictList_i c)),
              level := level c + newSize\<rparr>, w2) = Some (Ok (c1, w1))"
    by (auto simp: PutImage_i_def PushFront_def split: result.splits option.splits prod.splits)
  have "at_front (ID img) ?e
          (c\<lparr>images_i := (images_i c)(ID img \<mapsto> ?e),
             evictList_i := snd (PushFront img (evictList_i c)),
             level := level c + newSize\<rparr>)"
    using ok by (auto simp: at_front_def PushFront_def fresh_ok_def)
  from evict_i_at_front [OF ev this] res obtain rest where
    "images_i c1 (ID img) = Some ?e" "cells (evictList_i c1) = ?e # rest" "?e \<notin> set rest"
    by (auto simp: at_front_def)
  then show ?thesis
    by (intro PutImage_i_resident [where e = ?e] MoveToFront_front)
qed

lemma PutImage_n_again:
  assumes "map_of (images_n n1) (ID img) \<noteq> None"
  shows "PutImage_n svc (Some img) (n1, w1) = Panic \<or>
         (\<exists>w2. PutImage_n svc (Some img) (n1, w1) = Ok (n1, w2))"
  using assms
  by (auto simp: PutImage_n_def split: result.splits option.splits prod.splits)

text \<open>
  C9, amended, for image-LRU and naive: if the first \<^verbatim>\<open>PutImage\<close> passed its size check
  and the image is resident when it returns, a second \<^verbatim>\<open>PutImage\<close> of the image
  returns the cache exactly as the first left it (capacity, level, map and list), or
  panics on a nil from the service. For naive the image being resident is enough.
  layer-LRU and archive-LRU build every layer record of the image anew and evict again.
\<close>

theorem second_PutImage_changes_nothing:
  "(fresh_ok (evictList_i c) \<and> checkImageSize svc (capacity c) img w = Ok (None, wa) \<and>
    PutImage_i svc (Some img) (c, w) = Some (Ok (c1, w1)) \<and> images_i c1 (ID img) \<noteq> None \<longrightarrow>
      PutImage_i svc (Some img) (c1, w1) = Some Panic \<or>
      (\<exists>w2. PutImage_i svc (Some img) (c1, w1) = Some (Ok (c1, w2)))) \<and>
   (PutImage_n svc (Some img) (n, v) = Ok (n1, v1) \<and> map_of (images_n n1) (ID img) \<noteq> None \<longrightarrow>
      PutImage_n svc (Some img) (n1, v1) = Panic \<or>
      (\<exists>v2. PutImage_n svc (Some img) (n1, v1) = Ok (n1, v2)))"
  using PutImage_i_again [of c svc img w wa c1 w1] PutImage_n_again [of n1 img svc v1]
  by blast

theorem second_PutImage_changes_nothing_witness:
  "fresh_ok (evictList_i (newImageLRUCache 100)) \<and>
   checkImageSize plain (capacity (newImageLRUCache 100)) imageA () = Ok (None, ()) \<and>
   PutImage_i plain (Some imageA) (newImageLRUCache 100, ()) = Some (Ok (cache_put_A, ())) \<and>
   images_i cache_put_A (ID imageA) = Some 0 \<and>
   PutImage_i plain (Some imageA) (cache_put_A, ()) = Some (Ok (cache_put_A, ())) \<and>
   PutImage_n plain (Some imageA) (newNaiveCache 100, ()) = Ok (naive_put_A, ()) \<and>
   map_of (images_n naive_put_A) (ID imageA) = Some 10 \<and>
   PutImage_n plain (Some imageA) (naive_put_A, ()) = Ok (naive_put_A, ())"
proof -
  have ok: "fresh_ok (evictList_i (newImageLRUCache 100))"
    by (simp add: fresh_ok_def newImageLRUCache_def list_New_def)
  have chk: "checkImageSize plain (capacity (newImageLRUCache 100)) imageA () = Ok (None, ())"
    by (simp add: checkImageSize_def getImageSize_def Let_def plain_def imageA_def
        newImageLRUCache_def)
  have run: "PutImage_i plain (Some imageA) (newImageLRUCache 100, ()) = Some (Ok (cache_put_A, ()))"
    by (simp add: PutImage_i_def checkImageSize_def getImageSize_def Let_def plain_def imageA_def
        newImageLRUCache_def list_New_def PushFront_def evict_i_def returned_def Len_def
        for_loop.simps over_capacity_i_def cache_put_A_def)
  have res: "images_i cache_put_A (ID imageA) = Some 0"
    by (simp add: cache_put_A_def imageA_def)
  have nrun: "PutImage_n plain (Some imageA) (newNaiveCache 100, ()) = Ok (naive_put_A, ())"
    by (simp add: PutImage_n_def checkImageSize_def getImageSize_def Let_def plain_def imageA_def
        newNaiveCache_def evict_n_def naive_put_A_def)
  have nres: "map_of (images_n naive_put_A) (ID imageA) = Some 10"
    by (simp add: naive_put_A_def imageA_def)
  have np: "PutImage_i plain (Some imageA) (cache_put_A, ()) \<noteq> Some Panic"
    "PutImage_n plain (Some imageA) (naive_put_A, ()) \<noteq> Panic"
    by (simp_all add: PutImage_i_def PutImage_n_def checkImageSize_def getImageSize_def Let_def
        plain_def imageA_def cache_put_A_def naive_put_A_def)
  from second_PutImage_changes_nothing [of "newImageLRUCache 100" plain imageA "()" "()"
      cache_put_A "()" "newNaiveCache 100" "()" naive_put_A "()"]
    ok chk run res nrun nres np
  have "PutImage_i plain (Some imageA) (cache_put_A, ()) = Some (Ok (cache_put_A, ())) \<and>
        PutImage_n plain (Some imageA) (naive_put_A, ()) = Ok (naive_put_A, ())"
    by auto
  with ok chk run res nrun nres show ?thesis by blast
qed

end
